theory Spec2Isabelle
  imports Main
begin

section \<open>JavaScript values and plain objects\<close>

text \<open>
  The workflow engine is TypeScript. Its state fields are plain JavaScript objects used
  as string-keyed records, and the user-supplied condition and hook expressions may yield
  any JavaScript value. Numbers are modelled as integers plus \<open>NaN\<close> (retry counters and
  attempt numbers are integers; fractional numbers are outside this model).
\<close>

datatype jsval =
    JUndefined
  | JNull
  | JBool bool
  | JNum int
  | JNaN
  | JStr string
  | JArr "jsval list"
  | JObj "(string \<times> jsval) list"
  | JFun

text \<open>The coercion \<open>if (v)\<close> applies: \<open>false\<close>, \<open>0\<close>, \<open>NaN\<close>, the empty string,
  \<open>null\<close> and \<open>undefined\<close> are falsy, everything else is truthy.\<close>

fun truthy :: "jsval \<Rightarrow> bool" where
  "truthy JUndefined = False"
| "truthy JNull = False"
| "truthy (JBool b) = b"
| "truthy (JNum n) = (n \<noteq> 0)"
| "truthy JNaN = False"
| "truthy (JStr s) = (s \<noteq> [])"
| "truthy (JArr xs) = True"
| "truthy (JObj kvs) = True"
| "truthy JFun = True"

fun typeof :: "jsval \<Rightarrow> string" where
  "typeof JUndefined = ''undefined''"
| "typeof JNull = ''object''"
| "typeof (JBool b) = ''boolean''"
| "typeof (JNum n) = ''number''"
| "typeof JNaN = ''number''"
| "typeof (JStr s) = ''string''"
| "typeof (JArr xs) = ''object''"
| "typeof (JObj kvs) = ''object''"
| "typeof JFun = ''function''"

text \<open>A value of type \<open>string | null\<close> in a boolean position: \<open>null\<close> and \<open>""\<close> are falsy.\<close>

fun truthy_str :: "string option \<Rightarrow> bool" where
  "truthy_str None = False"
| "truthy_str (Some s) = (s \<noteq> [])"

subsection \<open>Decimal numerals\<close>

definition digit_char :: "nat \<Rightarrow> char" where
  "digit_char d = ''0123456789'' ! (d mod 10)"

fun show_nat :: "nat \<Rightarrow> string" where
  "show_nat n = (if n < 10 then [digit_char n] else show_nat (n div 10) @ [digit_char (n mod 10)])"

declare show_nat.simps [simp del]

definition is_digit :: "char \<Rightarrow> bool" where
  "is_digit c = (c \<in> set ''0123456789'')"

definition digit_val :: "char \<Rightarrow> nat" where
  "digit_val c = of_char c - 48"

definition dec_val :: "string \<Rightarrow> nat" where
  "dec_val s = foldl (\<lambda>acc c. 10 * acc + digit_val c) 0 s"

text \<open>An array index is a canonical numeric string naming an integer below \<open>2^32 - 1\<close>:
  \<open>"0"\<close>, \<open>"7"\<close>, \<open>"42"\<close>, but not \<open>"07"\<close>, \<open>"-1"\<close> or \<open>"x1"\<close>.\<close>

definition array_index :: "string \<Rightarrow> nat option" where
  "array_index k =
     (if k \<noteq> [] \<and> list_all is_digit k \<and> (k = ''0'' \<or> hd k \<noteq> CHR ''0'') \<and> dec_val k < 4294967295
      then Some (dec_val k) else None)"

subsection \<open>Objects as ordered property lists\<close>

text \<open>
  A plain object is the list of its own enumerable string-keyed properties in the order
  \<open>Object.keys\<close>, \<open>Object.values\<close> and spread enumerate them: array-index keys first, in
  ascending numeric order, then every other key in the order of its creation. Assigning
  to an existing key keeps the key's position.
\<close>

type_synonym 'v obj = "(string \<times> 'v) list"

definition obj_has :: "string \<Rightarrow> 'v obj \<Rightarrow> bool" where
  "obj_has k ob = (k \<in> fst ` set ob)"

definition obj_get :: "'v obj \<Rightarrow> string \<Rightarrow> 'v option" where
  "obj_get ob k = map_of ob k"

definition obj_values :: "'v obj \<Rightarrow> 'v list" where
  "obj_values ob = map snd ob"

text \<open>
  A property read \<open>ob[k]\<close> and the test \<open>k in ob\<close> look at the own properties first and
  then at the members every plain object inherits from \<open>Object.prototype\<close>. Read as a
  string, an inherited function is its native source text and the inherited \<open>__proto__\<close>
  is \<open>[object Object]\<close>.
\<close>

definition inherited_keys :: "string list" where
  "inherited_keys =
     [''constructor'', ''__defineGetter__'', ''__defineSetter__'', ''hasOwnProperty'',
      ''__lookupGetter__'', ''__lookupSetter__'', ''isPrototypeOf'', ''propertyIsEnumerable'',
      ''toString'', ''valueOf'', ''__proto__'', ''toLocaleString'']"

definition inherited_text :: "string \<Rightarrow> string" where
  "inherited_text k =
     (if k = ''__proto__'' then ''[object Object]''
      else ''function '' @ (if k = ''constructor'' then ''Object'' else k)
             @ ''() { [native code] }'')"

datatype 'v slot = Own 'v | Inherited string | Absent

definition js_get :: "'v obj \<Rightarrow> string \<Rightarrow> 'v slot" where
  "js_get ob k =
     (case map_of ob k of
        Some v \<Rightarrow> Own v
      | None \<Rightarrow> if k \<in> set inherited_keys then Inherited k else Absent)"

definition js_in :: "string \<Rightarrow> 'v obj \<Rightarrow> bool" where
  "js_in k ob = (obj_has k ob \<or> k \<in> set inherited_keys)"

definition sorts_before :: "string \<Rightarrow> string \<Rightarrow> bool" where
  "sorts_before k k' =
     (case array_index k of
        None \<Rightarrow> False
      | Some i \<Rightarrow> (case array_index k' of None \<Rightarrow> True | Some j \<Rightarrow> i < j))"

fun obj_insert :: "string \<Rightarrow> 'v \<Rightarrow> 'v obj \<Rightarrow> 'v obj" where
  "obj_insert k v [] = [(k, v)]"
| "obj_insert k v ((k', v') # rest) =
     (if sorts_before k k' then (k, v) # (k', v') # rest
      else (k', v') # obj_insert k v rest)"

definition obj_set :: "string \<Rightarrow> 'v \<Rightarrow> 'v obj \<Rightarrow> 'v obj" where
  "obj_set k v ob =
     (if obj_has k ob then map (\<lambda>(k', v'). if k' = k then (k', v) else (k', v')) ob
      else obj_insert k v ob)"

text \<open>\<open>{...a, ...b}\<close>: the properties of \<open>a\<close>, then those of \<open>b\<close> assigned in \<open>b\<close>'s order.\<close>

definition spread :: "'v obj \<Rightarrow> 'v obj \<Rightarrow> 'v obj" where
  "spread a b = foldl (\<lambda>ob (k, v). obj_set k v ob) a b"

text \<open>The own enumerable properties a spread copies out of a value: those of an object,
  the indexed elements of an array, none of a primitive.\<close>

fun ownProps :: "jsval \<Rightarrow> jsval obj" where
  "ownProps (JObj kvs) = kvs"
| "ownProps (JArr xs) = zip (map show_nat [0..<length xs]) xs"
| "ownProps v = []"

section \<open>Execution state and its reducers\<close>

text \<open>
  The entries of \<open>_retryCount\<close> are declared numbers, and a node's executor writes
  \<open>(state._retryCount[id] ?? 0) + 1\<close> back under its id. For an id that names an inherited
  member the read yields that member, and \<open>+ 1\<close> appends the character \<open>1\<close> to its text: the
  entry becomes a string. \<open>Junk k n\<close> is the text of the inherited member \<open>k\<close> followed by
  \<open>n + 1\<close> characters \<open>1\<close>; such a string is not a numeral, so compared with a number it
  is neither less nor greater or equal, and minus one it is \<open>NaN\<close>.
\<close>

datatype counter = Count nat | Junk string nat

fun counter_text :: "counter \<Rightarrow> string" where
  "counter_text (Count n) = show_nat n"
| "counter_text (Junk k n) = inherited_text k @ replicate (Suc n) (CHR ''1'')"

text \<open>\<open>(x ?? 0) + 1\<close> for the value \<open>x\<close> a read of \<open>_retryCount\<close> yields.\<close>

fun next_attempt :: "counter slot \<Rightarrow> counter" where
  "next_attempt (Own (Count n)) = Count (n + 1)"
| "next_attempt (Own (Junk k n)) = Junk k (Suc n)"
| "next_attempt (Inherited k) = Junk k 0"
| "next_attempt Absent = Count 1"

text \<open>\<open>c < t\<close> and \<open>c - 1\<close> for an attempt number \<open>c\<close>.\<close>

fun counter_less :: "counter \<Rightarrow> int \<Rightarrow> bool" where
  "counter_less (Count n) t = (int n < t)"
| "counter_less (Junk k n) t = False"

fun minus_one :: "counter \<Rightarrow> jsval" where
  "minus_one (Count n) = JNum (int n - 1)"
| "minus_one (Junk k n) = JNaN"

text \<open>\<open>(x ?? 0) < t\<close> and \<open>(x ?? 0) >= t\<close> for the value \<open>x\<close> a read of \<open>_retryCount\<close>
  yields.\<close>

fun slot_less :: "counter slot \<Rightarrow> int \<Rightarrow> bool" where
  "slot_less (Own c) t = counter_less c t"
| "slot_less (Inherited k) t = False"
| "slot_less Absent t = (0 < t)"

fun slot_at_least :: "counter slot \<Rightarrow> int \<Rightarrow> bool" where
  "slot_at_least (Own (Count n)) t = (t \<le> int n)"
| "slot_at_least (Own (Junk k n)) t = False"
| "slot_at_least (Inherited k) t = False"
| "slot_at_least Absent t = (t \<le> 0)"

record OrchestratorState =
  prompt :: string
  nodeOutputs :: "string obj"
  finalAnswer :: string
  error :: "string option"
  metadata :: "jsval obj"
  currentNode :: "string option"
  retryCount :: "counter obj"

text \<open>The reducers of \<open>OrchestratorStateAnnotation\<close>, one per field.\<close>

definition reduce_prompt :: "string \<Rightarrow> string \<Rightarrow> string" where
  "reduce_prompt x y = y"

definition reduce_nodeOutputs :: "string obj \<Rightarrow> string obj \<Rightarrow> string obj" where
  "reduce_nodeOutputs a b = spread a b"

definition reduce_finalAnswer :: "string \<Rightarrow> string \<Rightarrow> string" where
  "reduce_finalAnswer x y = y"

definition reduce_error :: "string option \<Rightarrow> string option \<Rightarrow> string option" where
  "reduce_error x y = y"

definition reduce_metadata :: "jsval obj \<Rightarrow> jsval \<Rightarrow> jsval obj" where
  "reduce_metadata a b = spread a (ownProps b)"

definition reduce_currentNode :: "string option \<Rightarrow> string option \<Rightarrow> string option" where
  "reduce_currentNode x y = y"

definition reduce_retryCount :: "counter obj \<Rightarrow> counter obj \<Rightarrow> counter obj" where
  "reduce_retryCount a b = spread a b"

text \<open>A node returns \<open>Partial<OrchestratorStateType>\<close>: each field present or absent.\<close>

record Patch =
  p_prompt :: "string option"
  p_nodeOutputs :: "string obj option"
  p_finalAnswer :: "string option"
  p_error :: "string option option"
  p_metadata :: "jsval option"
  p_currentNode :: "string option option"
  p_retryCount :: "counter obj option"

text \<open>Modelled from the spec: how the engine applies a patch (the graph library is not
  part of the sources). A field present in the patch goes through that field's
  reducer; a field absent from the patch is left as it is.\<close>

definition applyPatch :: "OrchestratorState \<Rightarrow> Patch \<Rightarrow> OrchestratorState" where
  "applyPatch s p =
     s\<lparr> prompt := (case p_prompt p of None \<Rightarrow> prompt s | Some y \<Rightarrow> reduce_prompt (prompt s) y),
        nodeOutputs := (case p_nodeOutputs p of None \<Rightarrow> nodeOutputs s
                          | Some b \<Rightarrow> reduce_nodeOutputs (nodeOutputs s) b),
        finalAnswer := (case p_finalAnswer p of None \<Rightarrow> finalAnswer s
                          | Some y \<Rightarrow> reduce_finalAnswer (finalAnswer s) y),
        error := (case p_error p of None \<Rightarrow> error s | Some y \<Rightarrow> reduce_error (error s) y),
        metadata := (case p_metadata p of None \<Rightarrow> metadata s
                       | Some b \<Rightarrow> reduce_metadata (metadata s) b),
        currentNode := (case p_currentNode p of None \<Rightarrow> currentNode s
                          | Some y \<Rightarrow> reduce_currentNode (currentNode s) y),
        retryCount := (case p_retryCount p of None \<Rightarrow> retryCount s
                         | Some b \<Rightarrow> reduce_retryCount (retryCount s) b) \<rparr>"

section \<open>Schema types\<close>

record StateNodeDefinition =
  id_node :: string
  name_node :: string
  description :: string
  agentType :: string
  basePrompt :: string
  maxRetries :: "int option"
  onSuccess :: "string option"
  onError :: "string option"

record ConditionDefinition =
  code :: string
  cond_description :: "string option"

record EdgeDefinition =
  from_edge :: string
  to_edge :: string
  condition :: "ConditionDefinition option"

record StateMachineSchema =
  plan :: string
  diagram :: string
  nodes :: "StateNodeDefinition list"
  edges :: "EdgeDefinition list"
  startNodeId :: string
  endNodeId :: string
  initialMetadata :: "jsval obj option"

record ConditionContext =
  c_nodeOutputs :: "string obj"
  c_metadata :: "jsval obj"
  c_error :: "string option"
  c_currentNode :: "string option"

record MetadataUpdateContext =
  h_output :: "string option"
  h_error :: "string option"
  h_elapsedMs :: int
  h_retryCount :: jsval
  h_metadata :: "jsval obj"
  h_nodeId :: string

section \<open>Schema validation\<close>

text \<open>
  \<open>ManagerAgent.generateStateMachine\<close> validates the planner's answer with
  \<open>createStateMachineSchemaDefinition().parse(parsed)\<close>. The validation library is not part
  of the sources; its combinators are modelled by their documented behaviour. A schema
  is a function of the path and the input that yields the typed value or the list of
  issues; an object schema parses every declared key, a missing key reading as
  \<open>undefined\<close>, ignores undeclared keys and reports the issues of all its keys in
  declaration order; an array schema does the same for its elements. An issue is the
  path of the offending value and the issue code.
\<close>

datatype segment = Key string | Index nat

type_synonym issue = "segment list \<times> string"

type_synonym 'a parsed = "issue list + 'a"

type_synonym 'a zod = "segment list \<Rightarrow> jsval \<Rightarrow> 'a parsed"

definition z_ap :: "('a \<Rightarrow> 'b) parsed \<Rightarrow> 'a parsed \<Rightarrow> 'b parsed" where
  "z_ap f x =
     (case f of
        Inr g \<Rightarrow> (case x of Inr a \<Rightarrow> Inr (g a) | Inl ex \<Rightarrow> Inl ex)
      | Inl ef \<Rightarrow> (case x of Inr a \<Rightarrow> Inl ef | Inl ex \<Rightarrow> Inl (ef @ ex)))"

definition z_string :: "string zod" where
  "z_string path v = (case v of JStr s \<Rightarrow> Inr s | _ \<Rightarrow> Inl [(path, ''invalid_type'')])"

definition z_number :: "int zod" where
  "z_number path v = (case v of JNum n \<Rightarrow> Inr n | _ \<Rightarrow> Inl [(path, ''invalid_type'')])"

definition z_enum :: "string list \<Rightarrow> string zod" where
  "z_enum values path v =
     (case v of
        JStr s \<Rightarrow> if s \<in> set values then Inr s else Inl [(path, ''invalid_enum_value'')]
      | _ \<Rightarrow> Inl [(path, ''invalid_type'')])"

definition z_optional :: "'a zod \<Rightarrow> 'a option zod" where
  "z_optional p path v =
     (if v = JUndefined then Inr None
      else (case p path v of Inl e \<Rightarrow> Inl e | Inr a \<Rightarrow> Inr (Some a)))"

fun z_items :: "'a zod \<Rightarrow> segment list \<Rightarrow> nat \<Rightarrow> jsval list \<Rightarrow> 'a list parsed" where
  "z_items p path i [] = Inr []"
| "z_items p path i (x # xs) =
     z_ap (z_ap (Inr (#)) (p (path @ [Index i]) x)) (z_items p path (Suc i) xs)"

definition z_array :: "'a zod \<Rightarrow> 'a list zod" where
  "z_array p path v =
     (case v of JArr xs \<Rightarrow> z_items p path 0 xs | _ \<Rightarrow> Inl [(path, ''invalid_type'')])"

definition z_record_unknown :: "jsval obj zod" where
  "z_record_unknown path v =
     (case v of JObj kvs \<Rightarrow> Inr kvs | _ \<Rightarrow> Inl [(path, ''invalid_type'')])"

definition z_field :: "jsval obj \<Rightarrow> segment list \<Rightarrow> string \<Rightarrow> 'a zod \<Rightarrow> 'a parsed" where
  "z_field kvs path k p =
     p (path @ [Key k]) (case obj_get kvs k of None \<Rightarrow> JUndefined | Some v \<Rightarrow> v)"

definition createAgentTypeSchema :: "string list \<Rightarrow> string zod" where
  "createAgentTypeSchema agents =
     (if length agents = 0 then z_enum [''claude'', ''codex'', ''gemini'']
      else z_enum agents)"

definition createStateNodeDefinitionSchema :: "string list \<Rightarrow> StateNodeDefinition zod" where
  "createStateNodeDefinitionSchema agents path v =
     (case v of
        JObj kvs \<Rightarrow>
          z_ap (z_ap (z_ap (z_ap (z_ap (z_ap (z_ap (z_ap
            (Inr (\<lambda>a b c d e f g h.
                    \<lparr> id_node = a, name_node = b, description = c, agentType = d,
                      basePrompt = e, maxRetries = f, onSuccess = g, onError = h \<rparr>))
            (z_field kvs path ''id'' z_string))
            (z_field kvs path ''name'' z_string))
            (z_field kvs path ''description'' z_string))
            (z_field kvs path ''agentType'' (createAgentTypeSchema agents)))
            (z_field kvs path ''basePrompt'' z_string))
            (z_field kvs path ''maxRetries'' (z_optional z_number)))
            (z_field kvs path ''onSuccess'' (z_optional z_string)))
            (z_field kvs path ''onError'' (z_optional z_string))
      | _ \<Rightarrow> Inl [(path, ''invalid_type'')])"

definition ConditionDefinitionSchema :: "ConditionDefinition zod" where
  "ConditionDefinitionSchema path v =
     (case v of
        JObj kvs \<Rightarrow>
          z_ap (z_ap
            (Inr (\<lambda>a b. \<lparr> code = a, cond_description = b \<rparr>))
            (z_field kvs path ''code'' z_string))
            (z_field kvs path ''description'' (z_optional z_string))
      | _ \<Rightarrow> Inl [(path, ''invalid_type'')])"

definition EdgeDefinitionSchema :: "EdgeDefinition zod" where
  "EdgeDefinitionSchema path v =
     (case v of
        JObj kvs \<Rightarrow>
          z_ap (z_ap (z_ap
            (Inr (\<lambda>a b c. \<lparr> from_edge = a, to_edge = b, condition = c \<rparr>))
            (z_field kvs path ''from'' z_string))
            (z_field kvs path ''to'' z_string))
            (z_field kvs path ''condition'' (z_optional ConditionDefinitionSchema))
      | _ \<Rightarrow> Inl [(path, ''invalid_type'')])"

definition createStateMachineSchemaDefinition :: "string list \<Rightarrow> StateMachineSchema zod" where
  "createStateMachineSchemaDefinition agents path v =
     (case v of
        JObj kvs \<Rightarrow>
          z_ap (z_ap (z_ap (z_ap (z_ap (z_ap (z_ap
            (Inr (\<lambda>a b c d e f g.
                    \<lparr> plan = a, diagram = b, nodes = c, edges = d, startNodeId = e,
                      endNodeId = f, initialMetadata = g \<rparr>))
            (z_field kvs path ''plan'' z_string))
            (z_field kvs path ''diagram'' z_string))
            (z_field kvs path ''nodes'' (z_array (createStateNodeDefinitionSchema agents))))
            (z_field kvs path ''edges'' (z_array EdgeDefinitionSchema)))
            (z_field kvs path ''startNodeId'' z_string))
            (z_field kvs path ''endNodeId'' z_string))
            (z_field kvs path ''initialMetadata'' (z_optional z_record_unknown))
      | _ \<Rightarrow> Inl [(path, ''invalid_type'')])"

text \<open>The validation step of \<open>generateStateMachine\<close>; \<open>agents\<close> is the configured agent
  list.\<close>

definition validate :: "string list \<Rightarrow> jsval \<Rightarrow> StateMachineSchema parsed" where
  "validate agents parsed = createStateMachineSchemaDefinition agents [] parsed"

section \<open>The expression evaluator\<close>

text \<open>
  Conditions and hooks are JavaScript source text compiled with \<open>new Function\<close> and called
  on the context. The JavaScript engine is a parameter of the model: building and calling
  the function either throws or returns a value. Expressions that mutate their context or
  do not return are outside the model.
\<close>

datatype js_outcome = Throws string | Returns jsval

record js_engine =
  runHook :: "string \<Rightarrow> MetadataUpdateContext \<Rightarrow> js_outcome"
  runCondition :: "string \<Rightarrow> ConditionContext \<Rightarrow> js_outcome"
  JSON_stringify :: "string obj \<Rightarrow> string"

definition executeMetadataUpdate :: "js_engine \<Rightarrow> string \<Rightarrow> MetadataUpdateContext \<Rightarrow> jsval" where
  "executeMetadataUpdate E c context =
     (case runHook E c context of
        Returns result \<Rightarrow>
          (if typeof result = ''object'' \<and> result \<noteq> JNull then result else JObj [])
      | Throws e \<Rightarrow> JObj [])"

definition evaluateCondition :: "js_engine \<Rightarrow> string \<Rightarrow> ConditionContext \<Rightarrow> jsval" where
  "evaluateCondition E conditionCode ctx =
     (case runCondition E conditionCode ctx of
        Returns v \<Rightarrow> v
      | Throws e \<Rightarrow> JBool False)"

section \<open>The node executor\<close>

text \<open>An agent's \<open>execute\<close> resolves with the output text or rejects; \<open>Rejected\<close> carries
  the message the executor derives from the thrown value (\<open>error.message\<close>, or
  \<open>String(error)\<close>). An agent is modelled by what its call yields for a prompt. The
  executor's \<open>elapsedMs\<close> argument is the time the clock measures around the call.\<close>

datatype execute_result = Resolved string | Rejected string

type_synonym CLIAgent = "string \<Rightarrow> execute_result"

definition no_patch :: Patch where
  "no_patch = \<lparr> p_prompt = None, p_nodeOutputs = None, p_finalAnswer = None, p_error = None,
                p_metadata = None, p_currentNode = None, p_retryCount = None \<rparr>"

definition hook_given :: "string option \<Rightarrow> bool" where
  "hook_given h = (case h of None \<Rightarrow> False | Some c \<Rightarrow> c \<noteq> [])"

text \<open>The prompt handed to the agent: the node's base prompt followed by the outputs
  recorded so far, serialised by \<open>JSON.stringify\<close>.\<close>

definition fullPrompt :: "js_engine \<Rightarrow> StateNodeDefinition \<Rightarrow> OrchestratorState \<Rightarrow> string" where
  "fullPrompt E node state =
     basePrompt node @ [CHR 0x0A, CHR 0x0A] @ ''Context from previous steps:'' @ [CHR 0x0A]
       @ JSON_stringify E (nodeOutputs state)"

definition createNodeExecutor ::
  "js_engine \<Rightarrow> StateNodeDefinition \<Rightarrow> (string \<rightharpoonup> CLIAgent) \<Rightarrow> int \<Rightarrow> OrchestratorState \<Rightarrow> Patch" where
  "createNodeExecutor E node agents elapsedMs state =
     (case agents (id_node node) of
        None \<Rightarrow>
          no_patch\<lparr> p_error := Some (Some (''No agent available for node: '' @ id_node node)),
                    p_currentNode := Some (Some (id_node node)) \<rparr>
      | Some agent \<Rightarrow>
          (let attemptNumber = next_attempt (js_get (retryCount state) (id_node node));
               maxRetries = (case maxRetries node of None \<Rightarrow> 0 | Some m \<Rightarrow> m);
               totalAttempts = maxRetries + 1;
               fullPrompt = fullPrompt E node state
           in case agent fullPrompt of
                Resolved output \<Rightarrow>
                  (let metadataUpdate =
                         (if hook_given (onSuccess node)
                          then executeMetadataUpdate E (the (onSuccess node))
                                 \<lparr> h_output = Some output, h_error = None,
                                   h_elapsedMs = elapsedMs, h_retryCount = minus_one attemptNumber,
                                   h_metadata = metadata state, h_nodeId = id_node node \<rparr>
                          else JObj [])
                   in no_patch\<lparr> p_nodeOutputs := Some [(id_node node, output)],
                                p_metadata := Some metadataUpdate,
                                p_currentNode := Some (Some (id_node node)),
                                p_error := Some None,
                                p_retryCount := Some [(id_node node, attemptNumber)] \<rparr>)
              | Rejected errorMessage \<Rightarrow>
                  (let metadataUpdate =
                         (if hook_given (onError node)
                          then executeMetadataUpdate E (the (onError node))
                                 \<lparr> h_output = None, h_error = Some errorMessage,
                                   h_elapsedMs = elapsedMs, h_retryCount = minus_one attemptNumber,
                                   h_metadata = metadata state, h_nodeId = id_node node \<rparr>
                          else JObj [])
                   in if counter_less attemptNumber totalAttempts
                      then no_patch\<lparr> p_metadata := Some metadataUpdate,
                                     p_currentNode := Some (Some (id_node node)),
                                     p_error := Some (Some errorMessage),
                                     p_retryCount := Some [(id_node node, attemptNumber)] \<rparr>
                      else no_patch\<lparr> p_error := Some (Some (''Node '' @ id_node node
                                                    @ '' failed after '' @ counter_text attemptNumber
                                                    @ '' attempts: '' @ errorMessage)),
                                     p_metadata := Some metadataUpdate,
                                     p_currentNode := Some (Some (id_node node)),
                                     p_retryCount := Some [(id_node node, attemptNumber)] \<rparr>)))"

section \<open>The condition router\<close>

definition END :: string where
  "END = ''__end__''"

definition START :: string where
  "START = ''__start__''"

text \<open>A router returns \<open>string | string[]\<close>.\<close>

datatype route = Single string | Many "string list"

definition condition_holds :: "js_engine \<Rightarrow> ConditionContext \<Rightarrow> EdgeDefinition \<Rightarrow> bool" where
  "condition_holds E ctx e =
     (case condition e of
        None \<Rightarrow> False
      | Some c \<Rightarrow> truthy (evaluateCondition E (code c) ctx))"

text \<open>\<open>node?.maxRetries ?? 0\<close> for the result of \<open>schema.nodes.find\<close>.\<close>

definition node_maxRetries :: "StateNodeDefinition option \<Rightarrow> int" where
  "node_maxRetries node =
     (case node of None \<Rightarrow> 0 | Some n \<Rightarrow> (case maxRetries n of None \<Rightarrow> 0 | Some m \<Rightarrow> m))"

definition condition_context :: "OrchestratorState \<Rightarrow> ConditionContext" where
  "condition_context state =
     \<lparr> c_nodeOutputs = nodeOutputs state, c_metadata = metadata state,
       c_error = error state, c_currentNode = currentNode state \<rparr>"

definition createConditionRouter ::
  "js_engine \<Rightarrow> StateMachineSchema \<Rightarrow> string \<Rightarrow> OrchestratorState \<Rightarrow> route" where
  "createConditionRouter E schema fromNodeId state =
     (let outgoingEdges = filter (\<lambda>e. from_edge e = fromNodeId) (edges schema);
          node = find (\<lambda>n. id_node n = fromNodeId) (nodes schema);
          totalAttempts = node_maxRetries node + 1;
          ctx = condition_context state;
          attemptNumber = js_get (retryCount state) fromNodeId;
          hasOutput = js_in fromNodeId (nodeOutputs state)
      in if truthy_str (error state) \<and> \<not> hasOutput \<and> slot_less attemptNumber totalAttempts
         then Single fromNodeId
         else if truthy_str (error state) \<and> slot_at_least attemptNumber totalAttempts
         then (case find (condition_holds E ctx) outgoingEdges of
                 Some edge \<Rightarrow> Single (to_edge edge)
               | None \<Rightarrow> Single END)
         else (let unconditionalEdges = filter (\<lambda>e. condition e = None) outgoingEdges;
                   conditionalEdges = filter (\<lambda>e. condition e \<noteq> None) outgoingEdges;
                   destinations = map to_edge unconditionalEdges
                                    @ map to_edge (filter (condition_holds E ctx) conditionalEdges)
               in if length destinations = 0 then Single END
                  else if length destinations = 1 then Single (destinations ! 0)
                  else Many destinations))"

section \<open>The graph builder\<close>

text \<open>The calls \<open>buildGraph\<close> makes on the graph under construction, in order. The router
  handed to \<open>addConditionalEdges\<close> for a node is \<open>createConditionRouter schema nodeId\<close>; the
  list is the set of destinations the builder declares for it.\<close>

datatype graph_call =
    AddNode string
  | AddEdge string string
  | AddConditionalEdges string "string list"

text \<open>\<open>new Set(xs)\<close> enumerated: each element once, at its first occurrence.\<close>

fun dedupe :: "'a list \<Rightarrow> 'a list" where
  "dedupe [] = []"
| "dedupe (x # xs) = x # dedupe (filter (\<lambda>y. y \<noteq> x) xs)"

definition wire_node :: "StateMachineSchema \<Rightarrow> string \<Rightarrow> graph_call list" where
  "wire_node schema nodeId =
     (let outgoingEdges = filter (\<lambda>e. from_edge e = nodeId) (edges schema);
          hasConditions = list_ex (\<lambda>e. condition e \<noteq> None) outgoingEdges;
          node = find (\<lambda>n. id_node n = nodeId) (nodes schema);
          hasRetry = (node_maxRetries node > 0)
      in if hasConditions \<or> length outgoingEdges > 1 \<or> hasRetry
         then [AddConditionalEdges nodeId
                 (dedupe (map to_edge outgoingEdges @ [END] @ (if hasRetry then [nodeId] else [])))]
         else if length outgoingEdges = 1
         then [AddEdge nodeId (to_edge (outgoingEdges ! 0))]
         else [])"

record BuiltGraph =
  compiled :: "graph_call list"
  built_initialMetadata :: "jsval obj"

definition buildGraph :: "StateMachineSchema \<Rightarrow> jsval obj option \<Rightarrow> BuiltGraph" where
  "buildGraph schema options_initialMetadata =
     (let nodesWithOutgoingEdges = dedupe (map from_edge (edges schema));
          endNodeHasOutgoing = list_ex (\<lambda>e. from_edge e = endNodeId schema) (edges schema);
          endNodeExists = list_ex (\<lambda>n. id_node n = endNodeId schema) (nodes schema)
      in \<lparr> compiled =
             map (\<lambda>node. AddNode (id_node node)) (nodes schema)
             @ [AddEdge START (startNodeId schema)]
             @ concat (map (wire_node schema) nodesWithOutgoingEdges)
             @ (if \<not> endNodeHasOutgoing \<and> endNodeExists
                then [AddEdge (endNodeId schema) END] else []),
           built_initialMetadata =
             spread (spread [] (case initialMetadata schema of None \<Rightarrow> [] | Some m \<Rightarrow> m))
                    (case options_initialMetadata of None \<Rightarrow> [] | Some m \<Rightarrow> m) \<rparr>)"

section \<open>The execution engine\<close>

fun route_list :: "route \<Rightarrow> string list" where
  "route_list (Single d) = [d]"
| "route_list (Many ds) = ds"

text \<open>Modelled from the spec: the traversal engine (the graph library is not part of
  the sources). After a node completes, its next destinations are the targets of its
  plain edges and the destinations its router returns; the end marker is no destination.\<close>

fun call_destinations ::
  "js_engine \<Rightarrow> StateMachineSchema \<Rightarrow> string \<Rightarrow> OrchestratorState \<Rightarrow> graph_call \<Rightarrow> string list" where
  "call_destinations E schema nodeId s (AddNode n) = []"
| "call_destinations E schema nodeId s (AddEdge a b) = (if a = nodeId then [b] else [])"
| "call_destinations E schema nodeId s (AddConditionalEdges a ds) =
     (if a = nodeId then route_list (createConditionRouter E schema a s) else [])"

definition nextDestinations ::
  "js_engine \<Rightarrow> StateMachineSchema \<Rightarrow> graph_call list \<Rightarrow> string \<Rightarrow> OrchestratorState \<Rightarrow> string list" where
  "nextDestinations E schema g nodeId s =
     filter (\<lambda>d. d \<noteq> END) (concat (map (call_destinations E schema nodeId s) g))"

text \<open>Modelled from the spec: one run of the engine. A step runs the executor of every
  active node on the state the step started with, applies the patches through the
  reducers in the order of the active set, and asks each completed node for its next
  destinations, its router reading the step's state with that node's own patch applied;
  the deduplicated union is the next active set, and the run ends when it is empty. The
  fuel bounds the number of steps: a run that needs more has no result.\<close>

datatype 'a run_result = OutOfFuel | UnknownNode string | Finished 'a

fun run ::
  "js_engine \<Rightarrow> StateMachineSchema \<Rightarrow> (string \<rightharpoonup> CLIAgent) \<Rightarrow> int \<Rightarrow> graph_call list
     \<Rightarrow> nat \<Rightarrow> string list \<Rightarrow> OrchestratorState \<Rightarrow> OrchestratorState run_result" where
  "run E schema agents elapsedMs g 0 active s = (if active = [] then Finished s else OutOfFuel)"
| "run E schema agents elapsedMs g (Suc fuel) active s =
     (if active = [] then Finished s
      else (case find (\<lambda>a. find (\<lambda>n. id_node n = a) (nodes schema) = None) active of
              Some a \<Rightarrow> UnknownNode a
            | None \<Rightarrow>
               (let patches = map (\<lambda>a. (a, createNodeExecutor E
                                            (the (find (\<lambda>n. id_node n = a) (nodes schema)))
                                            agents elapsedMs s)) active;
                    s' = foldl applyPatch s (map snd patches);
                    dests = dedupe (concat (map (\<lambda>(a, p).
                               nextDestinations E schema g a (applyPatch s p)) patches))
                in run E schema agents elapsedMs g fuel dests s')))"

section \<open>Running a compiled graph\<close>

datatype invoke_result = InvokeThrows string | InvokeReturns OrchestratorState

record ExecutionResult =
  r_finalAnswer :: string
  r_nodeOutputs :: "string obj"
  r_metadata :: "jsval obj"
  r_error :: "string option"

text \<open>\<open>xs.pop()\<close> as a value: the last element, or \<open>undefined\<close> on the empty array.\<close>

definition pop :: "'a list \<Rightarrow> 'a option" where
  "pop xs = (if xs = [] then None else Some (last xs))"

definition initial_state :: "string \<Rightarrow> jsval obj option \<Rightarrow> OrchestratorState" where
  "initial_state initial_prompt initial_metadata =
     \<lparr> prompt = initial_prompt, nodeOutputs = [], finalAnswer = [], error = None,
       metadata = (case initial_metadata of None \<Rightarrow> [] | Some m \<Rightarrow> m),
       currentNode = None, retryCount = [] \<rparr>"

definition executeGraph ::
  "(OrchestratorState \<Rightarrow> invoke_result) \<Rightarrow> string \<Rightarrow> jsval obj option \<Rightarrow> ExecutionResult" where
  "executeGraph invoke initial_prompt initial_metadata =
     (let state = initial_state initial_prompt initial_metadata
      in case invoke state of
           InvokeReturns result \<Rightarrow>
             (let finalAnswer =
                    (if truthy_str (error result)
                     then ''Error during execution: '' @ the (error result)
                     else (case pop (obj_values (nodeOutputs result)) of
                             None \<Rightarrow> ''No output generated''
                           | Some v \<Rightarrow> if v \<noteq> [] then v else ''No output generated''))
              in \<lparr> r_finalAnswer = finalAnswer, r_nodeOutputs = nodeOutputs result,
                   r_metadata = metadata result, r_error = error result \<rparr>)
         | InvokeThrows errorMessage \<Rightarrow>
             \<lparr> r_finalAnswer = ''Execution failed: '' @ errorMessage, r_nodeOutputs = [],
               r_metadata = (case initial_metadata of None \<Rightarrow> [] | Some m \<Rightarrow> m),
               r_error = Some errorMessage \<rparr>)"

text \<open>Modelled from the spec: invoking a compiled graph (the graph library is not part of
  the sources). The run starts at the targets of the edges leaving the start marker; a
  run that the engine cannot finish surfaces as a thrown error.\<close>

fun entry_call :: "graph_call \<Rightarrow> string list" where
  "entry_call (AddEdge a b) = (if a = START then [b] else [])"
| "entry_call c = []"

definition invoke_graph ::
  "js_engine \<Rightarrow> StateMachineSchema \<Rightarrow> (string \<rightharpoonup> CLIAgent) \<Rightarrow> int \<Rightarrow> nat
     \<Rightarrow> OrchestratorState \<Rightarrow> invoke_result" where
  "invoke_graph E schema agents elapsedMs fuel state =
     (let g = compiled (buildGraph schema None)
      in case run E schema agents elapsedMs g fuel (concat (map entry_call g)) state of
           Finished s \<Rightarrow> InvokeReturns s
         | OutOfFuel \<Rightarrow> InvokeThrows ''Recursion limit reached''
         | UnknownNode a \<Rightarrow> InvokeThrows (''Unknown node: '' @ a))"

section \<open>Properties, as the specification words them\<close>


text \<open>A condition evaluates true in a state when running it on the context read from
  that state, namely the state's \<open>nodeOutputs\<close>, \<open>metadata\<close>, \<open>error\<close> and \<open>currentNode\<close>,
  returns a value other than the falsy ones.\<close>

definition evaluates_true :: "js_engine \<Rightarrow> string \<Rightarrow> OrchestratorState \<Rightarrow> bool" where
  "evaluates_true E c state =
     (\<exists>v. runCondition E c
              \<lparr> c_nodeOutputs = nodeOutputs state, c_metadata = metadata state,
                c_error = error state, c_currentNode = currentNode state \<rparr> = Returns v
          \<and> v \<notin> {JUndefined, JNull, JBool False, JNum 0, JNaN, JStr []})"

text \<open>The success rule of the router in the specification's words: the targets of all
  unconditional outgoing edges, and the targets of the conditional outgoing edges whose
  condition evaluates true in the current state.\<close>

definition success_destinations ::
  "js_engine \<Rightarrow> StateMachineSchema \<Rightarrow> string \<Rightarrow> OrchestratorState \<Rightarrow> string set" where
  "success_destinations E schema n state =
     to_edge ` {e \<in> set (edges schema). from_edge e = n \<and> condition e = None}
     \<union> to_edge ` {e \<in> set (edges schema). from_edge e = n \<and>
           (\<exists>c. condition e = Some c \<and> evaluates_true E (code c) state)}"

text \<open>The attempt number of an execution of a node: \<open>retryCount[nodeId] + 1\<close>, counting
  a missing entry as zero.\<close>

definition attempt_number :: "OrchestratorState \<Rightarrow> string \<Rightarrow> nat" where
  "attempt_number state nodeId =
     (case map_of (retryCount state) nodeId of Some (Count n) \<Rightarrow> n + 1 | _ \<Rightarrow> 1)"

text \<open>The states and ids on which \<open>retryCount[nodeId]\<close> reads a count: the node has a
  numeric entry, or it has no entry and its id names no member of \<open>Object.prototype\<close>.\<close>

definition counts_attempts :: "OrchestratorState \<Rightarrow> string \<Rightarrow> bool" where
  "counts_attempts state nodeId =
     (case map_of (retryCount state) nodeId of
        Some (Count n) \<Rightarrow> True
      | Some (Junk k m) \<Rightarrow> False
      | None \<Rightarrow> nodeId \<notin> set inherited_keys)"

text \<open>The acceptance condition of the specification: node ids are unique, every edge
  joins existing nodes, the start and end ids name existing nodes, and no \<open>maxRetries\<close> is
  negative.\<close>

definition node_ids :: "StateMachineSchema \<Rightarrow> string list" where
  "node_ids schema = map id_node (nodes schema)"

definition valid_workflow :: "StateMachineSchema \<Rightarrow> bool" where
  "valid_workflow schema =
     (distinct (node_ids schema)
      \<and> list_all (\<lambda>e. from_edge e \<in> set (node_ids schema) \<and> to_edge e \<in> set (node_ids schema))
           (edges schema)
      \<and> startNodeId schema \<in> set (node_ids schema)
      \<and> endNodeId schema \<in> set (node_ids schema)
      \<and> list_all (\<lambda>n. case maxRetries n of None \<Rightarrow> True | Some m \<Rightarrow> 0 \<le> m) (nodes schema))"

text \<open>The agent types validation admits: the configured ones, or the three built-in ones
  when none is configured.\<close>

definition allowed_agents :: "string list \<Rightarrow> string list" where
  "allowed_agents agents = (if agents = [] then [''claude'', ''codex'', ''gemini''] else agents)"

text \<open>The JSON document of a typed schema: every field under its declared key, an absent
  optional field left out.\<close>

definition optional_field :: "string \<Rightarrow> ('a \<Rightarrow> jsval) \<Rightarrow> 'a option \<Rightarrow> jsval obj" where
  "optional_field k f x = (case x of None \<Rightarrow> [] | Some a \<Rightarrow> [(k, f a)])"

definition node_document :: "StateNodeDefinition \<Rightarrow> jsval" where
  "node_document n =
     JObj ([(''id'', JStr (id_node n)), (''name'', JStr (name_node n)),
            (''description'', JStr (description n)), (''agentType'', JStr (agentType n)),
            (''basePrompt'', JStr (basePrompt n))]
           @ optional_field ''maxRetries'' JNum (maxRetries n)
           @ optional_field ''onSuccess'' JStr (onSuccess n)
           @ optional_field ''onError'' JStr (onError n))"

definition condition_document :: "ConditionDefinition \<Rightarrow> jsval" where
  "condition_document c =
     JObj ([(''code'', JStr (code c))] @ optional_field ''description'' JStr (cond_description c))"

definition edge_document :: "EdgeDefinition \<Rightarrow> jsval" where
  "edge_document e =
     JObj ([(''from'', JStr (from_edge e)), (''to'', JStr (to_edge e))]
           @ optional_field ''condition'' condition_document (condition e))"

definition schema_document :: "StateMachineSchema \<Rightarrow> jsval" where
  "schema_document s =
     JObj ([(''plan'', JStr (plan s)), (''diagram'', JStr (diagram s)),
            (''nodes'', JArr (map node_document (nodes s))),
            (''edges'', JArr (map edge_document (edges s))),
            (''startNodeId'', JStr (startNodeId s)), (''endNodeId'', JStr (endNodeId s))]
           @ optional_field ''initialMetadata'' JObj (initialMetadata s))"

section \<open>Example workflows\<close>

text \<open>An engine that knows a handful of expressions and throws on every other text. The
  example agents ignore their prompt, so the serialisation of the outputs is immaterial
  here.\<close>

definition demo_engine :: js_engine where
  "demo_engine =
     \<lparr> runHook = (\<lambda>c ctx.
         if c = ''({ lastNode: $nodeId })''
         then Returns (JObj [(''lastNode'', JStr (h_nodeId ctx))])
         else if c = ''$elapsedMs'' then Returns (JNum (h_elapsedMs ctx))
         else Throws ''SyntaxError''),
       runCondition = (\<lambda>c ctx.
         if c = ''ctx.error === null'' then Returns (JBool (c_error ctx = None))
         else if c = ''ctx.error !== null'' then Returns (JBool (c_error ctx \<noteq> None))
         else Throws ''SyntaxError''),
       JSON_stringify = (\<lambda>ob. ''{}'') \<rparr>"

definition demo_node :: "string \<Rightarrow> int option \<Rightarrow> string option \<Rightarrow> StateNodeDefinition" where
  "demo_node n retries hook =
     \<lparr> id_node = n, name_node = n, description = [], agentType = ''claude'',
       basePrompt = ''work'', maxRetries = retries, onSuccess = hook, onError = hook \<rparr>"

definition plain_edge :: "string \<Rightarrow> string \<Rightarrow> EdgeDefinition" where
  "plain_edge a b = \<lparr> from_edge = a, to_edge = b, condition = None \<rparr>"

definition guarded_edge :: "string \<Rightarrow> string \<Rightarrow> string \<Rightarrow> EdgeDefinition" where
  "guarded_edge a b c =
     \<lparr> from_edge = a, to_edge = b,
       condition = Some \<lparr> code = c, cond_description = None \<rparr> \<rparr>"

definition failing_agent :: CLIAgent where
  "failing_agent = (\<lambda>p. Rejected ''boom'')"

definition silent_agent :: CLIAgent where
  "silent_agent = (\<lambda>p. Resolved [])"

definition answering_agent :: CLIAgent where
  "answering_agent = (\<lambda>p. Resolved ''done'')"

text \<open>One node \<open>X\<close> with the given \<open>maxRetries\<close> and no outgoing edge; it is both start
  and end.\<close>

definition schema_single :: "int option \<Rightarrow> StateMachineSchema" where
  "schema_single retries =
     \<lparr> plan = [], diagram = [], nodes = [demo_node ''X'' retries None], edges = [],
       startNodeId = ''X'', endNodeId = ''X'', initialMetadata = None \<rparr>"

text \<open>Two nodes in sequence, \<open>X\<close> then \<open>Y\<close>, neither with retries.\<close>

definition schema_chain :: StateMachineSchema where
  "schema_chain =
     \<lparr> plan = [], diagram = [],
       nodes = [demo_node ''X'' None None, demo_node ''Y'' None None],
       edges = [plain_edge ''X'' ''Y''],
       startNodeId = ''X'', endNodeId = ''Y'', initialMetadata = None \<rparr>"

text \<open>The same sequence, with one retry allowed for \<open>X\<close>.\<close>

definition schema_retry_chain :: StateMachineSchema where
  "schema_retry_chain =
     \<lparr> plan = [], diagram = [],
       nodes = [demo_node ''X'' (Some 1) None, demo_node ''Y'' None None],
       edges = [plain_edge ''X'' ''Y''],
       startNodeId = ''X'', endNodeId = ''Y'', initialMetadata = None \<rparr>"

text \<open>A fan-out: \<open>A\<close> has three unconditional edges and two guarded ones.\<close>

definition schema_fan :: StateMachineSchema where
  "schema_fan =
     \<lparr> plan = [], diagram = [],
       nodes = map (\<lambda>n. demo_node n None None) [''A'', ''B'', ''C'', ''D'', ''G'', ''H''],
       edges = [plain_edge ''A'' ''B'', guarded_edge ''A'' ''G'' ''ctx.error === null'',
                plain_edge ''A'' ''C'', guarded_edge ''A'' ''H'' ''ctx.error !== null'',
                plain_edge ''A'' ''D''],
       startNodeId = ''A'', endNodeId = ''D'', initialMetadata = None \<rparr>"

text \<open>An engine whose conditions read the context: a metadata flag compared with a
  boolean, a metadata number, an output and the current node taken as they are, the
  error, and a read through a missing metadata entry, which throws.\<close>

definition reading_engine :: js_engine where
  "reading_engine =
     \<lparr> runHook = (\<lambda>c ctx. Throws ''SyntaxError''),
       runCondition = (\<lambda>c ctx.
         if c = ''ctx.metadata.ok === true''
         then Returns (JBool (map_of (c_metadata ctx) ''ok'' = Some (JBool True)))
         else if c = ''ctx.metadata.ok === false''
         then Returns (JBool (map_of (c_metadata ctx) ''ok'' = Some (JBool False)))
         else if c = ''ctx.metadata.score''
         then Returns (case map_of (c_metadata ctx) ''score'' of
                         None \<Rightarrow> JUndefined | Some v \<Rightarrow> v)
         else if c = ''ctx.nodeOutputs.A''
         then Returns (case map_of (c_nodeOutputs ctx) ''A'' of
                         None \<Rightarrow> JUndefined | Some out \<Rightarrow> JStr out)
         else if c = ''ctx.currentNode''
         then Returns (case c_currentNode ctx of None \<Rightarrow> JNull | Some n \<Rightarrow> JStr n)
         else if c = ''ctx.error''
         then Returns (case c_error ctx of None \<Rightarrow> JNull | Some e \<Rightarrow> JStr e)
         else if c = ''ctx.metadata.missing.deep'' \<and> map_of (c_metadata ctx) ''missing'' = None
         then Throws ''TypeError''
         else Throws ''SyntaxError''),
       JSON_stringify = (\<lambda>ob. ''{}'') \<rparr>"

text \<open>Node \<open>A\<close> with one unconditional edge and one guarded edge for each of those
  conditions, and the state after \<open>A\<close> succeeded with an output and two metadata
  entries.\<close>

definition schema_guarded :: StateMachineSchema where
  "schema_guarded =
     \<lparr> plan = [], diagram = [],
       nodes = map (\<lambda>n. demo_node n None None)
                 [''A'', ''B'', ''P'', ''F'', ''S'', ''O'', ''C'', ''Z'', ''T''],
       edges = [guarded_edge ''A'' ''P'' ''ctx.metadata.ok === true'',
                guarded_edge ''A'' ''F'' ''ctx.metadata.ok === false'',
                plain_edge ''A'' ''B'',
                guarded_edge ''A'' ''S'' ''ctx.metadata.score'',
                guarded_edge ''A'' ''O'' ''ctx.nodeOutputs.A'',
                guarded_edge ''A'' ''C'' ''ctx.currentNode'',
                guarded_edge ''A'' ''Z'' ''ctx.error'',
                guarded_edge ''A'' ''T'' ''ctx.metadata.missing.deep''],
       startNodeId = ''A'', endNodeId = ''B'', initialMetadata = None \<rparr>"

definition state_after_A :: OrchestratorState where
  "state_after_A =
     \<lparr> prompt = ''go'', nodeOutputs = [(''A'', ''report'')], finalAnswer = [], error = None,
       metadata = [(''ok'', JBool True), (''score'', JNum 7)], currentNode = Some ''A'',
       retryCount = [(''A'', Count 1)] \<rparr>"

text \<open>A node with one retry, a node with a success hook, and a node whose id names an
  inherited member; a state in which \<open>X\<close> has used one attempt and another node has
  already left an output.\<close>

definition node_retrying :: StateNodeDefinition where
  "node_retrying = demo_node ''X'' (Some 1) None"

definition node_hooked :: StateNodeDefinition where
  "node_hooked = demo_node ''X'' (Some 1) (Some ''({ lastNode: $nodeId })'')"

definition node_toString :: StateNodeDefinition where
  "node_toString = demo_node ''toString'' (Some 1) None"

definition state_second_attempt :: OrchestratorState where
  "state_second_attempt =
     \<lparr> prompt = ''go'', nodeOutputs = [(''W'', ''earlier'')], finalAnswer = [],
       error = Some ''boom'', metadata = [], currentNode = Some ''X'',
       retryCount = [(''X'', Count 1)] \<rparr>"

text \<open>A schema that breaks every condition of the specification: two nodes share the id
  \<open>a\<close>, one has \<open>maxRetries = -1\<close>, the edge leads to an unknown node, and neither the start
  nor the end id names a node. Below it, the same schema as the planner would send it.\<close>

definition broken_schema :: StateMachineSchema where
  "broken_schema =
     \<lparr> plan = ''p'', diagram = ''d'',
       nodes = [demo_node ''a'' (Some (- 1)) None, demo_node ''a'' None None],
       edges = [plain_edge ''a'' ''ghost''],
       startNodeId = ''nowhere'', endNodeId = ''elsewhere'', initialMetadata = None \<rparr>"

definition broken_candidate :: jsval where
  "broken_candidate =
     JObj [(''plan'', JStr ''p''), (''diagram'', JStr ''d''),
           (''nodes'', JArr [
              JObj [(''id'', JStr ''a''), (''name'', JStr ''a''), (''description'', JStr []),
                    (''agentType'', JStr ''claude''), (''basePrompt'', JStr ''work''),
                    (''maxRetries'', JNum (- 1))],
              JObj [(''id'', JStr ''a''), (''name'', JStr ''a''), (''description'', JStr []),
                    (''agentType'', JStr ''claude''), (''basePrompt'', JStr ''work'')]]),
           (''edges'', JArr [JObj [(''from'', JStr ''a''), (''to'', JStr ''ghost'')]]),
           (''startNodeId'', JStr ''nowhere''), (''endNodeId'', JStr ''elsewhere'')]"

definition ill_typed_candidate :: jsval where
  "ill_typed_candidate =
     JObj [(''plan'', JNum 1), (''diagram'', JStr ''d''),
           (''nodes'', JArr [
              JObj [(''id'', JStr ''a''), (''name'', JStr ''a''), (''description'', JStr []),
                    (''agentType'', JStr ''gpt''), (''basePrompt'', JStr ''work''),
                    (''maxRetries'', JStr ''two'')]]),
           (''edges'', JArr []),
           (''startNodeId'', JStr ''a'')]"

section \<open>Evaluation sets\<close>

text \<open>The definitions unfolded when the model is evaluated on a concrete workflow.\<close>

lemmas js_defs = array_index_def is_digit_def dec_val_def digit_val_def sorts_before_def
  obj_set_def obj_has_def obj_get_def spread_def obj_values_def pop_def js_get_def js_in_def
  inherited_keys_def inherited_text_def

lemmas reducer_defs = reduce_prompt_def reduce_nodeOutputs_def reduce_finalAnswer_def
  reduce_error_def reduce_metadata_def reduce_currentNode_def reduce_retryCount_def
  applyPatch_def no_patch_def

lemmas executor_defs = createNodeExecutor_def executeMetadataUpdate_def hook_given_def
  fullPrompt_def

lemmas router_defs = createConditionRouter_def condition_holds_def evaluateCondition_def
  node_maxRetries_def condition_context_def END_def START_def

lemmas builder_defs = buildGraph_def wire_node_def nextDestinations_def invoke_graph_def

lemmas demo_defs = demo_engine_def demo_node_def plain_edge_def guarded_edge_def
  failing_agent_def silent_agent_def answering_agent_def schema_single_def schema_chain_def
  schema_retry_chain_def schema_fan_def reading_engine_def schema_guarded_def
  state_after_A_def node_retrying_def node_hooked_def node_toString_def
  state_second_attempt_def

lemmas zod_defs = validate_def createStateMachineSchemaDefinition_def
  createStateNodeDefinitionSchema_def EdgeDefinitionSchema_def ConditionDefinitionSchema_def
  createAgentTypeSchema_def z_field_def z_string_def z_number_def z_enum_def z_optional_def
  z_array_def z_record_unknown_def z_ap_def obj_get_def

section \<open>Lookup in merged objects\<close>

lemma set_obj_insert: "set (obj_insert k v ob) = insert (k, v) (set ob)"
proof (induction ob)
  case Nil
  show ?case by simp
next
  case (Cons a ob)
  obtain k' v' where a: "a = (k', v')" by (cases a)
  show ?case
  proof (cases "sorts_before k k'")
    case True
    then show ?thesis by (simp add: a)
  next
    case False
    then show ?thesis using Cons.IH by (simp add: a insert_commute)
  qed
qed

lemma obj_has_Cons: "obj_has k ((k', v') # ob) = (k = k' \<or> obj_has k ob)"
  by (simp add: obj_has_def)

lemma obj_has_Nil: "\<not> obj_has k []"
  by (simp add: obj_has_def)

lemma map_of_absent: "\<not> obj_has k ob \<Longrightarrow> map_of ob k = None"
  by (simp add: obj_has_def map_of_eq_None_iff)

lemma map_of_obj_insert:
  "\<not> obj_has k ob \<Longrightarrow> map_of (obj_insert k v ob) x = (if x = k then Some v else map_of ob x)"
proof (induction ob)
  case Nil
  show ?case by simp
next
  case (Cons a ob)
  obtain k' v' where a: "a = (k', v')" by (cases a)
  from Cons.prems have ne: "k \<noteq> k'" and nh: "\<not> obj_has k ob"
    by (simp_all add: a obj_has_Cons)
  show ?case
  proof (cases "sorts_before k k'")
    case True
    then show ?thesis by (simp add: a)
  next
    case False
    then show ?thesis using Cons.IH [OF nh] ne by (auto simp: a)
  qed
qed

lemma map_of_overwrite:
  "map_of (map (\<lambda>(k', v'). if k' = k then (k', v) else (k', v')) ob) x =
     (if x = k \<and> obj_has k ob then Some v else map_of ob x)"
proof (induction ob)
  case Nil
  show ?case by (simp add: obj_has_Nil)
next
  case (Cons a ob)
  obtain k' v' where a: "a = (k', v')" by (cases a)
  show ?case
  proof (cases "k' = k")
    case True
    then show ?thesis using Cons.IH by (simp add: a obj_has_Cons)
  next
    case False
    show ?thesis
    proof (cases "x = k")
      case True
      then show ?thesis using Cons.IH False by (simp add: a obj_has_Cons)
    next
      case xk: False
      then show ?thesis using Cons.IH False by (simp add: a obj_has_Cons)
    qed
  qed
qed

lemma map_of_obj_set: "map_of (obj_set k v ob) = (map_of ob)(k \<mapsto> v)"
  by (rule ext) (simp add: obj_set_def map_of_obj_insert map_of_overwrite)

lemma spread_Nil: "spread a [] = a"
  by (simp add: spread_def)

lemma spread_Cons: "spread a ((k, v) # b) = spread (obj_set k v a) b"
  by (simp add: spread_def)

lemma map_of_spread: "map_of (spread a b) = map_of a ++ map_of (rev b)"
proof (induction b arbitrary: a)
  case Nil
  show ?case by (simp add: spread_Nil)
next
  case (Cons x b)
  obtain k v where x: "x = (k, v)" by (cases x)
  have "map_of (spread a (x # b)) = map_of (obj_set k v a) ++ map_of (rev b)"
    unfolding x spread_Cons by (rule Cons.IH)
  also have "\<dots> = map_of a ++ map_of (rev (x # b))"
    by (rule ext) (simp add: x map_of_obj_set map_add_def split: option.splits)
  finally show ?case .
qed

lemma obj_get_eq: "obj_get ob = map_of ob"
  by (rule ext) (simp add: obj_get_def)

lemma map_add_agree_commute:
  assumes "\<And>k v1 v2. m1 k = Some v1 \<Longrightarrow> m2 k = Some v2 \<Longrightarrow> v1 = v2"
  shows "m1 ++ m2 = m2 ++ m1"
proof (rule ext)
  fix k
  show "(m1 ++ m2) k = (m2 ++ m1) k"
  proof (cases "m1 k")
    case None
    then show ?thesis by (cases "m2 k") (simp_all add: map_add_def)
  next
    case left: (Some v1)
    show ?thesis
    proof (cases "m2 k")
      case None
      then show ?thesis using left by (simp add: map_add_def)
    next
      case right: (Some v2)
      have "v1 = v2" using left right by (rule assms)
      then show ?thesis using left right by (simp add: map_add_def)
    qed
  qed
qed

lemma spread_commute_agree:
  assumes "\<forall>k v1 v2. (k, v1) \<in> set p1 \<and> (k, v2) \<in> set p2 \<longrightarrow> v1 = v2"
  shows "map_of (spread (spread a p1) p2) = map_of (spread (spread a p2) p1)"
proof -
  have comm: "map_of (rev p1) ++ map_of (rev p2) = map_of (rev p2) ++ map_of (rev p1)"
  proof (rule map_add_agree_commute)
    fix k v1 v2
    assume "map_of (rev p1) k = Some v1" and "map_of (rev p2) k = Some v2"
    then have "(k, v1) \<in> set p1" and "(k, v2) \<in> set p2"
      by (auto dest: map_of_SomeD)
    then show "v1 = v2" using assms by blast
  qed
  have "map_of (spread (spread a p1) p2) = map_of a ++ (map_of (rev p1) ++ map_of (rev p2))"
    by (simp add: map_of_spread)
  also have "\<dots> = map_of a ++ (map_of (rev p2) ++ map_of (rev p1))"
    by (simp only: comm)
  also have "\<dots> = map_of (spread (spread a p2) p1)"
    by (simp add: map_of_spread)
  finally show ?thesis .
qed

lemma spread_single: "obj_get (spread a [(k, v)]) = (obj_get a)(k \<mapsto> v)"
  by (simp add: obj_get_eq spread_Cons spread_Nil map_of_obj_set)

section \<open>The final answer\<close>

text \<open>
  Claim C4, as amended. When the graph returns a terminal state, the final answer is
  \<open>"Error during execution: " + error\<close> if \<open>error\<close> is a non-empty string; otherwise it is
  the last value of \<open>nodeOutputs\<close> in enumeration order if that value is a non-empty
  string; otherwise, that is when \<open>nodeOutputs\<close> is empty or its last value is the empty
  string, it is the placeholder.
\<close>

theorem final_answer_rule:
  assumes "invoke (initial_state p m) = InvokeReturns result"
  shows "r_finalAnswer (executeGraph invoke p m) =
     (if error result \<noteq> None \<and> error result \<noteq> Some []
      then ''Error during execution: '' @ the (error result)
      else if nodeOutputs result = [] \<or> snd (last (nodeOutputs result)) = []
      then ''No output generated''
      else snd (last (nodeOutputs result)))"
proof (cases "error result")
  case None
  then show ?thesis using assms
    by (simp add: executeGraph_def pop_def obj_values_def last_map)
next
  case (Some e)
  then show ?thesis using assms
    by (simp add: executeGraph_def pop_def obj_values_def last_map)
qed

theorem final_answer_rule_witness:
  "invoke_graph demo_engine schema_chain
       [''X'' \<mapsto> answering_agent, ''Y'' \<mapsto> answering_agent] 5 3 (initial_state ''go'' None)
     = InvokeReturns
         \<lparr> prompt = ''go'', nodeOutputs = [(''X'', ''done''), (''Y'', ''done'')],
           finalAnswer = [], error = None, metadata = [], currentNode = Some ''Y'',
           retryCount = [(''X'', Count 1), (''Y'', Count 1)] \<rparr>
   \<and> r_finalAnswer (executeGraph (invoke_graph demo_engine schema_chain
          [''X'' \<mapsto> answering_agent, ''Y'' \<mapsto> answering_agent] 5 3) ''go'' None) = ''done''"
proof -
  have h: "invoke_graph demo_engine schema_chain
       [''X'' \<mapsto> answering_agent, ''Y'' \<mapsto> answering_agent] 5 3 (initial_state ''go'' None)
     = InvokeReturns
         \<lparr> prompt = ''go'', nodeOutputs = [(''X'', ''done''), (''Y'', ''done'')],
           finalAnswer = [], error = None, metadata = [], currentNode = Some ''Y'',
           retryCount = [(''X'', Count 1), (''Y'', Count 1)] \<rparr>"
    by (simp add: initial_state_def builder_defs demo_defs js_defs reducer_defs executor_defs
          router_defs Let_def numeral_3_eq_3)
  note t = final_answer_rule [where invoke = "invoke_graph demo_engine schema_chain
        [''X'' \<mapsto> answering_agent, ''Y'' \<mapsto> answering_agent] 5 3"
      and p = "''go''" and m = None, OF h]
  show ?thesis using h t by simp
qed

text \<open>
  Claim C4 as stated fails: a single node whose agent answers with the empty string ends
  the run with no error and one recorded output, and the final answer is the
  placeholder, not that output.
\<close>

theorem final_answer_placeholder_counterexample:
  "r_error (executeGraph (invoke_graph demo_engine (schema_single None)
        [''X'' \<mapsto> silent_agent] 5 3) ''go'' None) = None
   \<and> r_nodeOutputs (executeGraph (invoke_graph demo_engine (schema_single None)
        [''X'' \<mapsto> silent_agent] 5 3) ''go'' None) = [(''X'', [])]
   \<and> r_finalAnswer (executeGraph (invoke_graph demo_engine (schema_single None)
        [''X'' \<mapsto> silent_agent] 5 3) ''go'' None) = ''No output generated''"
  by (simp add: executeGraph_def initial_state_def builder_defs demo_defs js_defs
        reducer_defs executor_defs router_defs Let_def numeral_3_eq_3)

text \<open>Enumeration order is not always insertion order: a node id that is an array index
  is enumerated before every other key, so after \<open>b\<close> and then \<open>1\<close> complete the last value
  is still that of \<open>b\<close>.\<close>

lemma index_keys_enumerate_first:
  "reduce_nodeOutputs (reduce_nodeOutputs [] [(''b'', ''first'')]) [(''1'', ''second'')]
     = [(''1'', ''second''), (''b'', ''first'')]"
  by (simp add: reduce_nodeOutputs_def js_defs)

section \<open>The expression evaluator contains its failures\<close>

text \<open>
  Claim C6. When evaluating a condition throws, \<open>evaluateCondition\<close> yields \<open>false\<close>; when
  evaluating a hook throws, \<open>executeMetadataUpdate\<close> yields the empty mapping, which
  leaves the metadata as it was. Both functions return a plain value: the thrown error
  does not reach their caller.
\<close>

theorem evaluation_errors_contained:
  "(runCondition E c ctx = Throws e \<longrightarrow>
      evaluateCondition E c ctx = JBool False \<and> \<not> truthy (evaluateCondition E c ctx))
   \<and> (runHook E c' hctx = Throws e' \<longrightarrow>
      executeMetadataUpdate E c' hctx = JObj []
      \<and> reduce_metadata m (executeMetadataUpdate E c' hctx) = m)"
  by (simp add: evaluateCondition_def executeMetadataUpdate_def reduce_metadata_def spread_Nil)

theorem evaluation_errors_contained_witness:
  "runCondition demo_engine ''ctx.error ==='' (condition_context (initial_state ''go'' None))
     = Throws ''SyntaxError''
   \<and> evaluateCondition demo_engine ''ctx.error ==='' (condition_context (initial_state ''go'' None))
     = JBool False
   \<and> runHook demo_engine ''({ lastNode: ''
        \<lparr> h_output = Some ''out'', h_error = None, h_elapsedMs = 5, h_retryCount = JNum 0,
          h_metadata = [], h_nodeId = ''X'' \<rparr> = Throws ''SyntaxError''
   \<and> executeMetadataUpdate demo_engine ''({ lastNode: ''
        \<lparr> h_output = Some ''out'', h_error = None, h_elapsedMs = 5, h_retryCount = JNum 0,
          h_metadata = [], h_nodeId = ''X'' \<rparr> = JObj []"
proof -
  have h1: "runCondition demo_engine ''ctx.error ===''
              (condition_context (initial_state ''go'' None)) = Throws ''SyntaxError''"
    by (simp add: demo_engine_def)
  have h2: "runHook demo_engine ''({ lastNode: ''
        \<lparr> h_output = Some ''out'', h_error = None, h_elapsedMs = 5, h_retryCount = JNum 0,
          h_metadata = [], h_nodeId = ''X'' \<rparr> = Throws ''SyntaxError''"
    by (simp add: demo_engine_def)
  show ?thesis
    using h1 h2 evaluation_errors_contained [of demo_engine "''ctx.error ===''"
      "condition_context (initial_state ''go'' None)" "''SyntaxError''" "''({ lastNode: ''"
      "\<lparr> h_output = Some ''out'', h_error = None, h_elapsedMs = 5, h_retryCount = JNum 0,
          h_metadata = [], h_nodeId = ''X'' \<rparr>" "''SyntaxError''" "[]"]
    by blast
qed



section \<open>A node without an agent\<close>

text \<open>
  Claim C10. For a node whose id has no entry in the agent map, the executor's patch sets
  only \<open>error\<close>, to \<open>"No agent available for node: <id>"\<close>, and \<open>currentNode\<close>, to the
  node's id; applying it leaves \<open>nodeOutputs\<close>, \<open>metadata\<close> and \<open>retryCount\<close> as they
  were, so the node's attempt counter is not incremented.
\<close>

theorem missing_agent_patch:
  assumes "agents (id_node node) = None"
  shows "createNodeExecutor E node agents elapsedMs state =
           no_patch\<lparr> p_error := Some (Some (''No agent available for node: '' @ id_node node)),
                     p_currentNode := Some (Some (id_node node)) \<rparr>
         \<and> error (applyPatch state (createNodeExecutor E node agents elapsedMs state))
             = Some (''No agent available for node: '' @ id_node node)
         \<and> currentNode (applyPatch state (createNodeExecutor E node agents elapsedMs state))
             = Some (id_node node)
         \<and> nodeOutputs (applyPatch state (createNodeExecutor E node agents elapsedMs state))
             = nodeOutputs state
         \<and> metadata (applyPatch state (createNodeExecutor E node agents elapsedMs state))
             = metadata state
         \<and> retryCount (applyPatch state (createNodeExecutor E node agents elapsedMs state))
             = retryCount state"
  using assms
  by (simp add: createNodeExecutor_def applyPatch_def no_patch_def reduce_error_def
        reduce_currentNode_def)

theorem missing_agent_patch_witness:
  "[''Y'' \<mapsto> failing_agent] (id_node (demo_node ''X'' (Some 1) None)) = None
   \<and> retryCount (applyPatch (initial_state ''go'' None)
       (createNodeExecutor demo_engine (demo_node ''X'' (Some 1) None)
          [''Y'' \<mapsto> failing_agent] 5 (initial_state ''go'' None)))
       = retryCount (initial_state ''go'' None)
   \<and> error (applyPatch (initial_state ''go'' None)
       (createNodeExecutor demo_engine (demo_node ''X'' (Some 1) None)
          [''Y'' \<mapsto> failing_agent] 5 (initial_state ''go'' None)))
       = Some ''No agent available for node: X''"
proof -
  have h: "[''Y'' \<mapsto> failing_agent] (id_node (demo_node ''X'' (Some 1) None)) = None"
    by (simp add: demo_node_def)
  have n: "''No agent available for node: '' @ id_node (demo_node ''X'' (Some 1) None)
             = ''No agent available for node: X''"
    by (simp add: demo_node_def)
  note t = missing_agent_patch [where agents = "[''Y'' \<mapsto> failing_agent]"
      and node = "demo_node ''X'' (Some 1) None" and E = demo_engine and elapsedMs = 5
      and state = "initial_state ''go'' None", OF h]
  show ?thesis using h t unfolding n by blast
qed

section \<open>The state reducers\<close>

text \<open>
  Claim C7, as amended. The shallow-merge reducers of \<open>nodeOutputs\<close> and \<open>metadata\<close>
  commute on two patches that give no key two different values: both orders yield the
  same mapping. The reducers of \<open>error\<close> and \<open>currentNode\<close> keep the last value written,
  so two different values applied in the two orders leave different results.
\<close>

theorem mapping_reducers_commute_without_conflict:
  assumes "\<forall>k v1 v2. (k, v1) \<in> set o1 \<and> (k, v2) \<in> set o2 \<longrightarrow> v1 = v2"
      and "\<forall>k v1 v2. (k, v1) \<in> set (ownProps m1) \<and> (k, v2) \<in> set (ownProps m2) \<longrightarrow> v1 = v2"
  shows "obj_get (reduce_nodeOutputs (reduce_nodeOutputs a o1) o2)
           = obj_get (reduce_nodeOutputs (reduce_nodeOutputs a o2) o1)
       \<and> obj_get (reduce_metadata (reduce_metadata b m1) m2)
           = obj_get (reduce_metadata (reduce_metadata b m2) m1)
       \<and> reduce_error (reduce_error e x) y = y
       \<and> reduce_currentNode (reduce_currentNode c x) y = y
       \<and> (x \<noteq> y \<longrightarrow> reduce_error (reduce_error e x) y \<noteq> reduce_error (reduce_error e y) x)
       \<and> (x \<noteq> y \<longrightarrow> reduce_currentNode (reduce_currentNode c x) y
                        \<noteq> reduce_currentNode (reduce_currentNode c y) x)"
proof -
  have 1: "obj_get (reduce_nodeOutputs (reduce_nodeOutputs a o1) o2)
           = obj_get (reduce_nodeOutputs (reduce_nodeOutputs a o2) o1)"
    unfolding reduce_nodeOutputs_def obj_get_eq by (rule spread_commute_agree [OF assms(1)])
  have 2: "obj_get (reduce_metadata (reduce_metadata b m1) m2)
           = obj_get (reduce_metadata (reduce_metadata b m2) m1)"
    unfolding reduce_metadata_def obj_get_eq by (rule spread_commute_agree [OF assms(2)])
  have 3: "reduce_error (reduce_error e x) y = y
       \<and> reduce_currentNode (reduce_currentNode c x) y = y
       \<and> (x \<noteq> y \<longrightarrow> reduce_error (reduce_error e x) y \<noteq> reduce_error (reduce_error e y) x)
       \<and> (x \<noteq> y \<longrightarrow> reduce_currentNode (reduce_currentNode c x) y
                        \<noteq> reduce_currentNode (reduce_currentNode c y) x)"
    by (simp add: reduce_error_def reduce_currentNode_def)
  show ?thesis using 1 2 3 by blast
qed

theorem mapping_reducers_commute_without_conflict_witness:
  "obj_get (reduce_nodeOutputs (reduce_nodeOutputs [(''A'', ''out a'')] [(''B'', ''out b'')])
               [(''C'', ''out c'')])
      = obj_get (reduce_nodeOutputs (reduce_nodeOutputs [(''A'', ''out a'')] [(''C'', ''out c'')])
               [(''B'', ''out b'')])
   \<and> obj_get (reduce_metadata (reduce_metadata [] (JObj [(''b'', JNum 1)])) (JObj [(''c'', JNum 2)]))
      = obj_get (reduce_metadata (reduce_metadata [] (JObj [(''c'', JNum 2)])) (JObj [(''b'', JNum 1)]))
   \<and> reduce_error (reduce_error None (Some ''first'')) (Some ''second'')
      \<noteq> reduce_error (reduce_error None (Some ''second'')) (Some ''first'')"
proof -
  have h1: "\<forall>k v1 v2. (k, v1) \<in> set [(''B'', ''out b'')] \<and> (k, v2) \<in> set [(''C'', ''out c'')]
              \<longrightarrow> v1 = v2"
    by simp
  have h2: "\<forall>k v1 v2. (k, v1) \<in> set (ownProps (JObj [(''b'', JNum 1)]))
                \<and> (k, v2) \<in> set (ownProps (JObj [(''c'', JNum 2)])) \<longrightarrow> v1 = v2"
    by simp
  have ne: "Some ''first'' \<noteq> Some ''second''" by simp
  note t = mapping_reducers_commute_without_conflict [OF h1 h2,
      where a = "[(''A'', ''out a'')]" and b = "[]" and e = None and c = None
        and x = "Some ''first''" and y = "Some ''second''"]
  show ?thesis using ne t by blast
qed

text \<open>
  Claim C7 as stated fails for \<open>metadata\<close>: two nodes \<open>B\<close> and \<open>C\<close> completing in the same
  step, each with the hook \<open>({ lastNode: $nodeId })\<close>, leave \<open>lastNode\<close> equal to whichever
  patch is merged last.
\<close>

theorem metadata_merge_order_counterexample:
  "obj_get (metadata (applyPatch (applyPatch (initial_state ''go'' None)
       (createNodeExecutor demo_engine (demo_node ''B'' None (Some ''({ lastNode: $nodeId })''))
          [''B'' \<mapsto> answering_agent, ''C'' \<mapsto> answering_agent] 5 (initial_state ''go'' None)))
       (createNodeExecutor demo_engine (demo_node ''C'' None (Some ''({ lastNode: $nodeId })''))
          [''B'' \<mapsto> answering_agent, ''C'' \<mapsto> answering_agent] 5 (initial_state ''go'' None))))
     ''lastNode'' = Some (JStr ''C'')
   \<and> obj_get (metadata (applyPatch (applyPatch (initial_state ''go'' None)
       (createNodeExecutor demo_engine (demo_node ''C'' None (Some ''({ lastNode: $nodeId })''))
          [''B'' \<mapsto> answering_agent, ''C'' \<mapsto> answering_agent] 5 (initial_state ''go'' None)))
       (createNodeExecutor demo_engine (demo_node ''B'' None (Some ''({ lastNode: $nodeId })''))
          [''B'' \<mapsto> answering_agent, ''C'' \<mapsto> answering_agent] 5 (initial_state ''go'' None))))
     ''lastNode'' = Some (JStr ''B'')"
  by (simp add: initial_state_def demo_defs js_defs reducer_defs executor_defs Let_def)

section \<open>The success rule of the router\<close>

lemma truthy_iff_not_falsy:
  "truthy v \<longleftrightarrow> v \<notin> {JUndefined, JNull, JBool False, JNum 0, JNaN, JStr []}"
  by (cases v) auto

lemma condition_holds_iff:
  "condition_holds E (condition_context state) e
     \<longleftrightarrow> (\<exists>c. condition e = Some c \<and> evaluates_true E (code c) state)"
proof (cases "condition e")
  case None
  then show ?thesis by (simp add: condition_holds_def)
next
  case (Some c)
  show ?thesis
  proof (cases "runCondition E (code c) (condition_context state)")
    case (Throws x)
    then show ?thesis using Some
      by (simp add: condition_holds_def evaluateCondition_def evaluates_true_def
            condition_context_def)
  next
    case (Returns v)
    then show ?thesis using Some truthy_iff_not_falsy [of v]
      by (simp add: condition_holds_def evaluateCondition_def evaluates_true_def
            condition_context_def)
  qed
qed

lemma success_destinations_code:
  "success_destinations E schema n state =
     set (map to_edge (filter (\<lambda>e. condition e = None)
                         (filter (\<lambda>e. from_edge e = n) (edges schema)))
          @ map to_edge (filter (condition_holds E (condition_context state))
                           (filter (\<lambda>e. condition e \<noteq> None)
                              (filter (\<lambda>e. from_edge e = n) (edges schema)))))"
proof -
  have holds: "\<And>e. (condition e \<noteq> None \<and> condition_holds E (condition_context state) e)
      = (\<exists>c. condition e = Some c \<and> evaluates_true E (code c) state)"
    by (auto simp: condition_holds_iff)
  have "to_edge ` {e \<in> set (edges schema). from_edge e = n \<and>
           (\<exists>c. condition e = Some c \<and> evaluates_true E (code c) state)}
        = to_edge ` {e \<in> set (edges schema). from_edge e = n \<and> condition e \<noteq> None
                       \<and> condition_holds E (condition_context state) e}"
    by (simp only: holds [symmetric])
  then show ?thesis
    unfolding success_destinations_def by (auto simp: image_iff)
qed

lemma router_success_branch:
  assumes "\<not> truthy_str (error state)"
  shows "createConditionRouter E schema n state =
     (let destinations =
            map to_edge (filter (\<lambda>e. condition e = None)
                           (filter (\<lambda>e. from_edge e = n) (edges schema)))
            @ map to_edge (filter (condition_holds E (condition_context state))
                             (filter (\<lambda>e. condition e \<noteq> None)
                                (filter (\<lambda>e. from_edge e = n) (edges schema))))
      in if length destinations = 0 then Single END
         else if length destinations = 1 then Single (destinations ! 0)
         else Many destinations)"
  using assms by (simp add: createConditionRouter_def Let_def)

text \<open>
  Claim C5. In a state whose \<open>error\<close> is not set, the router's destinations are the
  targets of all unconditional outgoing edges together with the targets of the
  conditional outgoing edges whose condition evaluates true on the \<open>nodeOutputs\<close>,
  \<open>metadata\<close>, \<open>error\<close> and \<open>currentNode\<close> of the current state; when there is none, the
  router returns the end marker.
\<close>

theorem success_rule:
  assumes "\<not> truthy_str (error state)"
  shows "(success_destinations E schema n state \<noteq> {} \<longrightarrow>
            set (route_list (createConditionRouter E schema n state))
              = success_destinations E schema n state)
       \<and> (success_destinations E schema n state = {} \<longrightarrow>
            createConditionRouter E schema n state = Single END)"
proof -
  define ds where "ds =
            map to_edge (filter (\<lambda>e. condition e = None)
                           (filter (\<lambda>e. from_edge e = n) (edges schema)))
            @ map to_edge (filter (condition_holds E (condition_context state))
                             (filter (\<lambda>e. condition e \<noteq> None)
                                (filter (\<lambda>e. from_edge e = n) (edges schema))))"
  have U: "success_destinations E schema n state = set ds"
    unfolding ds_def by (rule success_destinations_code)
  have R: "createConditionRouter E schema n state =
             (if length ds = 0 then Single END
              else if length ds = 1 then Single (ds ! 0) else Many ds)"
    unfolding ds_def using router_success_branch [OF assms] by (simp add: Let_def)
  show ?thesis
  proof (cases ds)
    case Nil
    then show ?thesis using U R by simp
  next
    case (Cons d rest)
    then show ?thesis using U R by (cases rest) simp_all
  qed
qed

theorem success_rule_witness:
  "createConditionRouter reading_engine schema_guarded ''A'' state_after_A
        = Many [''B'', ''P'', ''S'', ''O'', ''C'']
   \<and> success_destinations reading_engine schema_guarded ''A'' state_after_A
        = {''B'', ''P'', ''S'', ''O'', ''C''}
   \<and> createConditionRouter demo_engine schema_chain ''Y'' (initial_state ''go'' None)
        = Single END"
proof -
  have h: "\<not> truthy_str (error state_after_A)"
    by (simp add: state_after_A_def)
  have r: "createConditionRouter reading_engine schema_guarded ''A'' state_after_A
        = Many [''B'', ''P'', ''S'', ''O'', ''C'']"
    by (simp add: demo_defs router_defs js_defs Let_def)
  note t = success_rule [OF h, where E = reading_engine and schema = schema_guarded
      and n = "''A''"]
  have ne: "success_destinations reading_engine schema_guarded ''A'' state_after_A \<noteq> {}"
    using t r by auto
  then have "set (route_list (createConditionRouter reading_engine schema_guarded ''A''
                 state_after_A))
              = success_destinations reading_engine schema_guarded ''A'' state_after_A"
    using t by blast
  then have u: "success_destinations reading_engine schema_guarded ''A'' state_after_A
        = {''B'', ''P'', ''S'', ''O'', ''C''}"
    unfolding r by auto
  have h0: "\<not> truthy_str (error (initial_state ''go'' None))"
    by (simp add: initial_state_def)
  have none: "success_destinations demo_engine schema_chain ''Y'' (initial_state ''go'' None) = {}"
    by (auto simp: success_destinations_def demo_defs)
  note t0 = success_rule [OF h0, where E = demo_engine and schema = schema_chain
      and n = "''Y''"]
  have e: "createConditionRouter demo_engine schema_chain ''Y'' (initial_state ''go'' None)
        = Single END"
    using t0 none by blast
  show ?thesis using r u e by blast
qed

section \<open>The patch of a node execution\<close>

lemma next_attempt_counts:
  assumes "counts_attempts state nodeId"
  shows "next_attempt (js_get (retryCount state) nodeId) = Count (attempt_number state nodeId)"
proof (cases "map_of (retryCount state) nodeId")
  case None
  then show ?thesis
    using assms by (simp add: js_get_def attempt_number_def counts_attempts_def)
next
  case (Some c)
  then show ?thesis
    using assms by (cases c) (simp_all add: js_get_def attempt_number_def counts_attempts_def)
qed


lemma executor_rejected:
  assumes "agents (id_node node) = Some agent"
      and "agent (fullPrompt E node state) = Rejected msg"
  shows "createNodeExecutor E node agents elapsedMs state =
           no_patch\<lparr> p_error := Some (Some
                       (if counter_less (next_attempt (js_get (retryCount state) (id_node node)))
                             (node_maxRetries (Some node) + 1)
                        then msg
                        else ''Node '' @ id_node node @ '' failed after ''
                               @ counter_text
                                   (next_attempt (js_get (retryCount state) (id_node node)))
                               @ '' attempts: '' @ msg)),
                     p_metadata := p_metadata (createNodeExecutor E node agents elapsedMs state),
                     p_currentNode := Some (Some (id_node node)),
                     p_retryCount := Some [(id_node node,
                         next_attempt (js_get (retryCount state) (id_node node)))] \<rparr>"
  using assms
  by (simp add: createNodeExecutor_def Let_def no_patch_def node_maxRetries_def)



text \<open>A node id that names a member of \<open>Object.prototype\<close> is outside \<open>counts_attempts\<close>
  when it has no entry yet: schema validation admits the id \<open>toString\<close>, the first read of
  \<open>retryCount["toString"]\<close> finds the inherited function, \<open>+ 1\<close> appends to its text, and
  the comparison with the number of attempts fails, so the first failure already carries
  the elaborated message.\<close>

lemma inherited_member_read_as_count:
  "\<not> counts_attempts (initial_state ''go'' None) ''toString''
   \<and> error (applyPatch (initial_state ''go'' None)
       (createNodeExecutor demo_engine node_toString [''toString'' \<mapsto> failing_agent] 5
          (initial_state ''go'' None)))
     = Some ''Node toString failed after function toString() { [native code] }1 attempts: boom''
   \<and> retryCount (applyPatch (initial_state ''go'' None)
       (createNodeExecutor demo_engine node_toString [''toString'' \<mapsto> failing_agent] 5
          (initial_state ''go'' None))) = [(''toString'', Junk ''toString'' 0)]"
proof -
  have id: "id_node node_toString = ''toString''"
    by (simp add: node_toString_def demo_node_def)
  have a: "[''toString'' \<mapsto> failing_agent] (id_node node_toString) = Some failing_agent"
    by (simp add: id)
  have r: "failing_agent (fullPrompt demo_engine node_toString (initial_state ''go'' None))
             = Rejected ''boom''"
    by (simp add: failing_agent_def)
  have n: "next_attempt (js_get (retryCount (initial_state ''go'' None)) ''toString'')
             = Junk ''toString'' 0"
    by (simp add: js_get_def initial_state_def inherited_keys_def)
  note P = executor_rejected [where agents = "[''toString'' \<mapsto> failing_agent]"
      and node = node_toString and agent = failing_agent and E = demo_engine
      and elapsedMs = 5 and msg = "''boom''" and state = "initial_state ''go'' None",
      OF a r, unfolded id n]
  have 1: "\<not> counts_attempts (initial_state ''go'' None) ''toString''"
    by (simp add: counts_attempts_def initial_state_def inherited_keys_def)
  have 2: "error (applyPatch (initial_state ''go'' None)
       (createNodeExecutor demo_engine node_toString [''toString'' \<mapsto> failing_agent] 5
          (initial_state ''go'' None)))
     = Some ''Node toString failed after function toString() { [native code] }1 attempts: boom''"
    by (subst P) (simp add: applyPatch_def no_patch_def reduce_error_def inherited_text_def)
  have 3: "retryCount (applyPatch (initial_state ''go'' None)
       (createNodeExecutor demo_engine node_toString [''toString'' \<mapsto> failing_agent] 5
          (initial_state ''go'' None))) = [(''toString'', Junk ''toString'' 0)]"
    by (subst P)
       (simp add: applyPatch_def no_patch_def reduce_retryCount_def initial_state_def js_defs)
  show ?thesis using 1 2 3 by blast
qed

section \<open>Plain transitions and the router\<close>

text \<open>A node with a single unconditional outgoing edge and no retries is wired with a
  plain edge, and on a state without error its router would name the same target.\<close>

lemma plain_edge_agrees_without_error:
  assumes "filter (\<lambda>e. from_edge e = n) (edges schema) = [e]"
      and "condition e = None"
      and "node_maxRetries (find (\<lambda>n'. id_node n' = n) (nodes schema)) \<le> 0"
      and "\<not> truthy_str (error state)"
  shows "wire_node schema n = [AddEdge n (to_edge e)]
         \<and> createConditionRouter E schema n state = Single (to_edge e)"
proof -
  have "wire_node schema n = [AddEdge n (to_edge e)]"
    using assms(1-3) by (simp add: wire_node_def Let_def)
  moreover have "createConditionRouter E schema n state = Single (to_edge e)"
    using assms(1,2) router_success_branch [OF assms(4), of E schema n]
    by (simp add: Let_def)
  ultimately show ?thesis by simp
qed

text \<open>
  Claim C2 at a failing input. Node \<open>X\<close> has one unconditional edge to \<open>Y\<close> and no
  retries, so \<open>buildGraph\<close> wires it with a plain edge. When \<open>X\<close> fails, the plain edge
  still leads to \<open>Y\<close>, while the router for \<open>X\<close> returns the end marker on that state.
  The run therefore goes on to \<open>Y\<close>, whose success clears the error: the final answer is
  \<open>Y\<close>'s output and the failure of \<open>X\<close> is lost.
\<close>

theorem plain_edge_continues_after_failure:
  "wire_node schema_chain ''X'' = [AddEdge ''X'' ''Y'']
   \<and> error (applyPatch (initial_state ''go'' None)
        (createNodeExecutor demo_engine (demo_node ''X'' None None)
           [''X'' \<mapsto> failing_agent, ''Y'' \<mapsto> answering_agent] 5 (initial_state ''go'' None)))
       = Some ''Node X failed after 1 attempts: boom''
   \<and> nextDestinations demo_engine schema_chain (compiled (buildGraph schema_chain None)) ''X''
        (applyPatch (initial_state ''go'' None)
          (createNodeExecutor demo_engine (demo_node ''X'' None None)
             [''X'' \<mapsto> failing_agent, ''Y'' \<mapsto> answering_agent] 5 (initial_state ''go'' None)))
       = [''Y'']
   \<and> createConditionRouter demo_engine schema_chain ''X''
        (applyPatch (initial_state ''go'' None)
          (createNodeExecutor demo_engine (demo_node ''X'' None None)
             [''X'' \<mapsto> failing_agent, ''Y'' \<mapsto> answering_agent] 5 (initial_state ''go'' None)))
       = Single END
   \<and> r_finalAnswer (executeGraph (invoke_graph demo_engine schema_chain
          [''X'' \<mapsto> failing_agent, ''Y'' \<mapsto> answering_agent] 5 3) ''go'' None) = ''done''
   \<and> r_error (executeGraph (invoke_graph demo_engine schema_chain
          [''X'' \<mapsto> failing_agent, ''Y'' \<mapsto> answering_agent] 5 3) ''go'' None) = None"
  by (simp add: executeGraph_def initial_state_def builder_defs demo_defs js_defs
        reducer_defs executor_defs router_defs Let_def numeral_3_eq_3 show_nat.simps
        digit_char_def)

section \<open>Retries of a node without outgoing edges\<close>

text \<open>Where a router is installed, a failed attempt with a non-empty message on a node
  that has no output yet and whose \<open>retryCount\<close> entry reads a count routes back to the
  node while attempts remain, and otherwise to the first outgoing edge whose condition
  holds, or to the end marker.\<close>

lemma failed_attempt_routes_back:
  assumes node: "find (\<lambda>n'. id_node n' = n) (nodes schema) = Some node"
      and agent: "agents n = Some agent"
      and fails: "agent (fullPrompt E node state) = Rejected msg"
      and msg: "msg \<noteq> []"
      and fresh: "\<not> js_in n (nodeOutputs state)"
      and counts: "counts_attempts state n"
  shows "createConditionRouter E schema n
           (applyPatch state (createNodeExecutor E node agents elapsedMs state)) =
         (if int (attempt_number state n) < node_maxRetries (Some node) + 1 then Single n
          else (case find (condition_holds E (condition_context
                       (applyPatch state (createNodeExecutor E node agents elapsedMs state))))
                     (filter (\<lambda>e. from_edge e = n) (edges schema)) of
                  Some edge \<Rightarrow> Single (to_edge edge)
                | None \<Rightarrow> Single END))"
proof -
  define S where "S = applyPatch state (createNodeExecutor E node agents elapsedMs state)"
  have idn: "id_node node = n"
    using node by (auto simp: find_Some_iff)
  have a: "agents (id_node node) = Some agent" using agent idn by simp
  have C: "next_attempt (js_get (retryCount state) (id_node node))
             = Count (attempt_number state n)"
    using next_attempt_counts [OF counts] idn by simp
  note P = executor_rejected [where agents = agents and node = node and agent = agent
      and E = E and state = state and msg = msg and elapsedMs = elapsedMs, OF a fails,
      unfolded C]
  have outs: "nodeOutputs S = nodeOutputs state"
    unfolding S_def by (subst P) (simp add: applyPatch_def no_patch_def)
  have err: "error S = Some (if int (attempt_number state n) < node_maxRetries (Some node) + 1
                  then msg
                  else ''Node '' @ n @ '' failed after '' @ show_nat (attempt_number state n)
                         @ '' attempts: '' @ msg)"
    unfolding S_def
    by (subst P) (simp add: applyPatch_def no_patch_def reduce_error_def idn)
  have "obj_get (retryCount S) n = Some (Count (attempt_number state n))"
    unfolding S_def
    by (subst P)
       (simp add: applyPatch_def no_patch_def reduce_retryCount_def spread_single idn)
  then have cnt: "js_get (retryCount S) n = Own (Count (attempt_number state n))"
    by (simp add: js_get_def obj_get_def)
  have truthy: "truthy_str (error S)"
    unfolding err using msg by simp
  show ?thesis
    unfolding S_def [symmetric]
    using truthy fresh outs cnt node
    by (simp add: createConditionRouter_def Let_def)
qed

text \<open>With an outgoing edge, \<open>X\<close> gets a router and is retried: two attempts, then the run
  ends with the error that states the attempt count.\<close>

lemma routed_node_retried:
  "invoke_graph demo_engine schema_retry_chain
       [''X'' \<mapsto> failing_agent, ''Y'' \<mapsto> answering_agent] 5 3 (initial_state ''go'' None)
     = InvokeReturns
         \<lparr> prompt = ''go'', nodeOutputs = [], finalAnswer = [],
           error = Some ''Node X failed after 2 attempts: boom'',
           metadata = [], currentNode = Some ''X'', retryCount = [(''X'', Count 2)] \<rparr>"
  by (simp add: initial_state_def builder_defs demo_defs schema_retry_chain_def js_defs
        reducer_defs executor_defs router_defs Let_def numeral_3_eq_3 show_nat.simps
        digit_char_def)

text \<open>
  Claim C3 at a failing input. Node \<open>X\<close> has \<open>maxRetries = 1\<close> and no outgoing edge, and
  its agent always fails. \<open>buildGraph\<close> installs routers only for nodes with outgoing
  edges, so \<open>X\<close> is wired straight to the end marker: the run makes one attempt
  (\<open>retryCount[X] = 1\<close>) and ends with the error \<open>"boom"\<close>, not with two attempts and
  \<open>"Node X failed after 2 attempts: boom"\<close>.
\<close>

theorem unrouted_node_not_retried:
  "compiled (buildGraph (schema_single (Some 1)) None)
     = [AddNode ''X'', AddEdge START ''X'', AddEdge ''X'' END]
   \<and> invoke_graph demo_engine (schema_single (Some 1)) [''X'' \<mapsto> failing_agent] 5 3
        (initial_state ''go'' None)
     = InvokeReturns
         \<lparr> prompt = ''go'', nodeOutputs = [], finalAnswer = [], error = Some ''boom'',
           metadata = [], currentNode = Some ''X'', retryCount = [(''X'', Count 1)] \<rparr>
   \<and> r_error (executeGraph (invoke_graph demo_engine (schema_single (Some 1))
          [''X'' \<mapsto> failing_agent] 5 3) ''go'' None) = Some ''boom''
   \<and> r_finalAnswer (executeGraph (invoke_graph demo_engine (schema_single (Some 1))
          [''X'' \<mapsto> failing_agent] 5 3) ''go'' None) = ''Error during execution: boom''"
  by (simp add: executeGraph_def initial_state_def builder_defs demo_defs js_defs
        reducer_defs executor_defs router_defs Let_def numeral_3_eq_3)

text \<open>The router of a node whose id names a member of \<open>Object.prototype\<close>: \<open>in\<close> finds
  the inherited member in \<open>nodeOutputs\<close> and neither comparison of the attempt number
  holds, so after a failure the node is not retried and the success rule chooses the
  destinations.\<close>

lemma inherited_id_not_retried:
  "createConditionRouter demo_engine
       (schema_retry_chain\<lparr> nodes := [node_toString, demo_node ''Y'' None None],
                              edges := [plain_edge ''toString'' ''Y''],
                              startNodeId := ''toString'' \<rparr>)
       ''toString''
       (applyPatch (initial_state ''go'' None)
          (createNodeExecutor demo_engine node_toString [''toString'' \<mapsto> failing_agent] 5
             (initial_state ''go'' None)))
     = Single ''Y''"
  by (simp add: initial_state_def demo_defs js_defs reducer_defs executor_defs router_defs
        Let_def)

section \<open>What schema validation checks\<close>

lemma z_ap_Inr [simp]: "z_ap (Inr g) (Inr a) = Inr (g a)"
  by (simp add: z_ap_def)

lemma z_ap_Inr_iff: "z_ap f x = Inr r \<longleftrightarrow> (\<exists>g a. f = Inr g \<and> x = Inr a \<and> r = g a)"
  by (cases f; cases x) (auto simp: z_ap_def)

lemma agent_type_accepted:
  assumes "d \<in> set (allowed_agents agents)"
  shows "createAgentTypeSchema agents path (JStr d) = Inr d"
proof (cases "agents = []")
  case True
  then show ?thesis using assms
    by (simp add: createAgentTypeSchema_def allowed_agents_def z_enum_def)
next
  case False
  then show ?thesis using assms
    by (simp add: createAgentTypeSchema_def allowed_agents_def z_enum_def)
qed

lemma agent_type_checked:
  assumes "createAgentTypeSchema agents path v = Inr d"
  shows "d \<in> set (allowed_agents agents)"
proof (cases "agents = []")
  case True
  then show ?thesis using assms
    by (cases v) (auto simp: createAgentTypeSchema_def allowed_agents_def z_enum_def
                       split: if_splits)
next
  case False
  then show ?thesis using assms
    by (cases v) (auto simp: createAgentTypeSchema_def allowed_agents_def z_enum_def
                       split: if_splits)
qed

lemma node_roundtrip:
  assumes "agentType n \<in> set (allowed_agents agents)"
  shows "createStateNodeDefinitionSchema agents path (node_document n) = Inr n"
proof -
  obtain a b c d e f g h where n: "n = \<lparr> id_node = a, name_node = b, description = c, agentType = d,
                      basePrompt = e, maxRetries = f, onSuccess = g, onError = h \<rparr>"
    by (cases n) auto
  have d: "d \<in> set (allowed_agents agents)" using assms n by simp
  show ?thesis
    unfolding n
    by (cases f; cases g; cases h)
       (simp_all add: createStateNodeDefinitionSchema_def node_document_def optional_field_def
          z_field_def z_string_def z_number_def z_optional_def agent_type_accepted [OF d]
          obj_get_def)
qed

lemma condition_roundtrip: "ConditionDefinitionSchema path (condition_document c) = Inr c"
proof -
  obtain a b where c: "c = \<lparr> code = a, cond_description = b \<rparr>" by (cases c) auto
  show ?thesis
    unfolding c
    by (cases b)
       (simp_all add: ConditionDefinitionSchema_def condition_document_def optional_field_def
          z_field_def z_string_def z_optional_def obj_get_def)
qed

lemma edge_roundtrip: "EdgeDefinitionSchema path (edge_document e) = Inr e"
proof -
  obtain a b c where e: "e = \<lparr> from_edge = a, to_edge = b, condition = c \<rparr>" by (cases e) auto
  have nu: "\<And>x. condition_document x \<noteq> JUndefined" by (simp add: condition_document_def)
  show ?thesis
    unfolding e
    by (cases c)
       (simp_all add: EdgeDefinitionSchema_def edge_document_def optional_field_def
          z_field_def z_string_def z_optional_def obj_get_def condition_roundtrip nu)
qed

lemma items_roundtrip:
  assumes "\<And>x path. x \<in> set xs \<Longrightarrow> p path (f x) = Inr x"
  shows "z_items p path i (map f xs) = Inr xs"
  using assms by (induction xs arbitrary: i) simp_all

lemma schema_roundtrip:
  assumes "\<forall>n \<in> set (nodes s). agentType n \<in> set (allowed_agents agents)"
  shows "validate agents (schema_document s) = Inr s"
proof -
  obtain a b c d e f g where s: "s = \<lparr> plan = a, diagram = b, nodes = c, edges = d,
      startNodeId = e, endNodeId = f, initialMetadata = g \<rparr>"
    by (cases s) auto
  have c: "\<And>i. z_items (createStateNodeDefinitionSchema agents) [Key ''nodes''] i
              (map node_document c) = Inr c"
    using assms by (intro items_roundtrip node_roundtrip) (simp add: s)
  have d: "\<And>i. z_items EdgeDefinitionSchema [Key ''edges''] i (map edge_document d) = Inr d"
    by (intro items_roundtrip edge_roundtrip)
  show ?thesis
    unfolding s validate_def
    by (cases g)
       (simp_all add: createStateMachineSchemaDefinition_def schema_document_def
          optional_field_def z_field_def z_string_def z_optional_def z_array_def
          z_record_unknown_def obj_get_def c d)
qed

lemma items_sound:
  "z_items p path i xs = Inr ys \<Longrightarrow> y \<in> set ys \<Longrightarrow> \<exists>path' x. p path' x = Inr y"
proof (induction xs arbitrary: i ys)
  case Nil
  then show ?case by simp
next
  case (Cons x xs)
  from Cons.prems(1) obtain b rest where
    b: "p (path @ [Index i]) x = Inr b" and
    rest: "z_items p path (Suc i) xs = Inr rest" and ys: "ys = b # rest"
    by (auto simp: z_ap_Inr_iff)
  show ?case
  proof (cases "y = b")
    case True
    then show ?thesis using b by blast
  next
    case False
    then have "y \<in> set rest" using Cons.prems(2) ys by simp
    then show ?thesis using Cons.IH [OF rest] by blast
  qed
qed

lemma node_sound:
  assumes "createStateNodeDefinitionSchema agents path v = Inr n"
  shows "agentType n \<in> set (allowed_agents agents)"
proof (cases v)
  case (JObj kvs)
  with assms obtain d where
    "z_field kvs path ''agentType'' (createAgentTypeSchema agents) = Inr d" and "agentType n = d"
    by (auto simp: createStateNodeDefinitionSchema_def z_ap_Inr_iff)
  then show ?thesis by (auto simp: z_field_def dest: agent_type_checked)
qed (use assms in \<open>simp_all add: createStateNodeDefinitionSchema_def\<close>)

lemma schema_sound:
  assumes "validate agents v = Inr s" and "n \<in> set (nodes s)"
  shows "agentType n \<in> set (allowed_agents agents)"
proof (cases v)
  case (JObj kvs)
  with assms(1) obtain c where
    c: "z_field kvs [] ''nodes'' (z_array (createStateNodeDefinitionSchema agents)) = Inr c"
    and "nodes s = c"
    by (auto simp: validate_def createStateMachineSchemaDefinition_def z_ap_Inr_iff)
  then have n: "n \<in> set c" using assms(2) by simp
  from c obtain xs where "z_items (createStateNodeDefinitionSchema agents) [Key ''nodes''] 0 xs = Inr c"
    by (auto simp: z_field_def z_array_def split: jsval.splits option.splits)
  from items_sound [OF this n] show ?thesis by (auto dest: node_sound)
qed (use assms in \<open>simp_all add: validate_def createStateMachineSchemaDefinition_def\<close>)

text \<open>
  Claim C1, as amended. Schema validation accepts the document of every typed schema
  whose agent types are admitted, whatever its node ids, edge endpoints, start and end
  ids and \<open>maxRetries\<close> values; and every schema it accepts has admitted agent types.
  Uniqueness of node ids, existence of the referenced nodes and the sign of \<open>maxRetries\<close>
  are not checked, so no violation of them is reported.
\<close>

theorem validation_is_structural:
  "((\<forall>n \<in> set (nodes s). agentType n \<in> set (allowed_agents agents))
      \<longrightarrow> validate agents (schema_document s) = Inr s)
   \<and> (validate agents v = Inr s'
      \<longrightarrow> (\<forall>n \<in> set (nodes s'). agentType n \<in> set (allowed_agents agents)))"
  using schema_roundtrip [of s agents] schema_sound [of agents v s'] by blast

theorem validation_is_structural_witness:
  "validate [''claude''] (schema_document broken_schema) = Inr broken_schema
   \<and> list_all (\<lambda>n. agentType n \<in> set (allowed_agents [''claude''])) (nodes broken_schema)
   \<and> \<not> valid_workflow broken_schema"
proof -
  have h: "\<forall>n \<in> set (nodes broken_schema). agentType n \<in> set (allowed_agents [''claude''])"
    by (simp add: broken_schema_def demo_node_def allowed_agents_def)
  have b: "\<not> valid_workflow broken_schema"
    by (simp add: valid_workflow_def node_ids_def broken_schema_def demo_node_def)
  have l: "list_all (\<lambda>n. agentType n \<in> set (allowed_agents [''claude''])) (nodes broken_schema)"
    using h by (simp add: list_all_iff)
  show ?thesis
    using h b l validation_is_structural [of broken_schema "[''claude'']"
        "schema_document broken_schema" broken_schema] by blast
qed

text \<open>
  Claim C1 as stated fails: the candidate below has duplicate node ids, an edge to an
  unknown node, unknown start and end ids and a negative \<open>maxRetries\<close>, and validation
  accepts it.
\<close>

theorem validation_accepts_invalid_workflow_counterexample:
  "validate [''claude''] broken_candidate = Inr broken_schema \<and> \<not> valid_workflow broken_schema"
  by (simp add: zod_defs broken_candidate_def broken_schema_def demo_node_def plain_edge_def
        valid_workflow_def node_ids_def)

text \<open>What validation does report: every ill-typed field of the candidate, not only the
  first.\<close>

lemma validation_reports_each_ill_typed_field:
  "validate [''claude''] ill_typed_candidate =
     Inl [([Key ''plan''], ''invalid_type''),
          ([Key ''nodes'', Index 0, Key ''agentType''], ''invalid_enum_value''),
          ([Key ''nodes'', Index 0, Key ''maxRetries''], ''invalid_type''),
          ([Key ''endNodeId''], ''invalid_type'')]"
  by (simp add: zod_defs ill_typed_candidate_def)

end
